theory Spec2Isabelle
  imports Complex_Main "HOL-Library.Multiset" "HOL-Library.Char_ord"
    "HOL-Library.List_Lexorder"
begin

section \<open>Tables of the marketing funnel pipeline\<close>

text \<open>
  A pandas DataFrame is modelled as the list of its rows, in row order; a row is a record
  with one field per column. A cell that pandas reports as missing (\<open>NaN\<close>, \<open>NaT\<close>,
  \<open>None\<close>) is \<open>None\<close>. The date columns are polymorphic in the records: the Cleaner
  reads them as text and writes them as datetimes, the Merger works on them after
  \<open>pd.to_datetime\<close>, where a cell is a timestamp or \<open>NaT\<close>.
\<close>

type_synonym timestamp = int  \<comment> \<open>nanoseconds since the epoch\<close>

record 'd lead =
  mql_id :: "string option"
  first_contact_date :: 'd
  landing_page_id :: "string option"
  origin :: "string option"

record 'd deal =
  deal_mql_id :: "string option"
  seller_id :: "string option"
  sdr_id :: "string option"
  sr_id :: "string option"
  won_date :: 'd
  business_segment :: "string option"
  lead_type :: "string option"
  lead_behaviour_profile :: "string option"
  has_company :: "rat option"
  has_gtin :: "rat option"
  average_stock :: "rat option"
  business_type :: "string option"
  declared_product_catalog_size :: "rat option"
  declared_monthly_revenue :: "rat option"

subsection \<open>Date cells and \<open>pd.to_datetime(..., errors='coerce')\<close>\<close>

text \<open>
  A cell of a date column is missing, a text still to be parsed, or a datetime (nanoseconds
  since the epoch). The parser of pandas is not part of the repository: it is the
  parameter \<open>parse\<close>, which returns \<open>None\<close> on a text that is no date. With
  \<open>errors='coerce'\<close> such a text becomes \<open>NaT\<close>; a datetime stays as it is.
\<close>

datatype date_cell = NaT | Text string | Datetime timestamp

definition to_datetime :: "(string \<Rightarrow> timestamp option) \<Rightarrow> date_cell \<Rightarrow> date_cell" where
  "to_datetime parse c =
     (case c of
        NaT \<Rightarrow> NaT
      | Text s \<Rightarrow> (case parse s of None \<Rightarrow> NaT | Some t \<Rightarrow> Datetime t)
      | Datetime t \<Rightarrow> Datetime t)"

definition present :: "'a option list \<Rightarrow> 'a list" where
  \<comment> \<open>the values of a column, its missing cells skipped\<close>
  "present cells = List.map_filter id cells"

section \<open>The Cleaner (02_data_cleaning.py)\<close>

text \<open>
  Numbers are modelled by exact rationals and text by ASCII strings. Every column that the
  script guards with \<open>if col in df.columns\<close> is a field of the record, so each guard is
  taken.
\<close>

subsection \<open>Duplicate rows\<close>

fun drop_seen :: "'a list \<Rightarrow> 'a list \<Rightarrow> 'a list" where
  "drop_seen seen [] = []"
| "drop_seen seen (x # xs) =
     (if x \<in> set seen then drop_seen seen xs else x # drop_seen (x # seen) xs)"

definition drop_duplicates :: "'a list \<Rightarrow> 'a list" where
  \<comment> \<open>\<open>df.drop_duplicates()\<close>: a row equal to an earlier row is dropped\<close>
  "drop_duplicates df = drop_seen [] df"

definition duplicated_sum :: "'a list \<Rightarrow> int" where
  \<comment> \<open>\<open>df.duplicated().sum()\<close>: the number of rows equal to an earlier row\<close>
  "duplicated_sum df = int (length df) - int (length (drop_duplicates df))"

definition duplicates_removed :: "'a list \<Rightarrow> int" where
  "duplicates_removed df = duplicated_sum df - duplicated_sum (drop_duplicates df)"

subsection \<open>Fills\<close>

definition fillna_with :: "'a option \<Rightarrow> 'a option \<Rightarrow> 'a option" where
  \<comment> \<open>\<open>col.fillna(v)\<close>; filling with a missing value changes nothing\<close>
  "fillna_with v c = (case c of None \<Rightarrow> v | Some x \<Rightarrow> Some x)"

definition median :: "rat option list \<Rightarrow> rat option" where
  \<comment> \<open>\<open>col.median()\<close>: of the present values; missing when there is none\<close>
  "median cells =
     (let vs = sort (present cells); n = length vs
      in if n = 0 then None
         else if odd n then Some (vs ! (n div 2))
         else Some ((vs ! (n div 2 - 1) + vs ! (n div 2)) / 2))"

definition fill_categorical :: "'d deal list \<Rightarrow> 'd deal list" where
  "fill_categorical deals_clean =
     map (\<lambda>r. r\<lparr> business_segment := fillna_with (Some ''unknown'') (business_segment r),
                 lead_type := fillna_with (Some ''unknown'') (lead_type r),
                 lead_behaviour_profile :=
                   fillna_with (Some ''unknown'') (lead_behaviour_profile r),
                 business_type := fillna_with (Some ''unknown'') (business_type r),
                 sdr_id := fillna_with (Some ''unknown'') (sdr_id r),
                 sr_id := fillna_with (Some ''unknown'') (sr_id r) \<rparr>) deals_clean"

definition fill_numerical :: "'d deal list \<Rightarrow> 'd deal list" where
  "fill_numerical deals_clean =
     map (\<lambda>r. r\<lparr> has_company := fillna_with (Some 0) (has_company r),
                 has_gtin := fillna_with (Some 0) (has_gtin r),
                 average_stock :=
                   fillna_with (median (map average_stock deals_clean)) (average_stock r),
                 declared_product_catalog_size :=
                   fillna_with (median (map declared_product_catalog_size deals_clean))
                     (declared_product_catalog_size r),
                 declared_monthly_revenue :=
                   fillna_with (median (map declared_monthly_revenue deals_clean))
                     (declared_monthly_revenue r) \<rparr>) deals_clean"

subsection \<open>Standardizing text: \<open>.str.lower().str.strip()\<close>\<close>

definition lower_char :: "char \<Rightarrow> char" where
  "lower_char c =
     (let n = of_char c :: nat in if 65 \<le> n \<and> n \<le> 90 then char_of (n + 32) else c)"

definition lower :: "string \<Rightarrow> string" where
  "lower s = map lower_char s"

definition is_space :: "char \<Rightarrow> bool" where
  "is_space c = (of_char c \<in> {9, 10, 11, 12, 13, 28, 29, 30, 31, 32 :: nat})"

definition strip :: "string \<Rightarrow> string" where
  "strip s = rev (dropWhile is_space (rev (dropWhile is_space s)))"

definition lower_strip :: "string option \<Rightarrow> string option" where
  \<comment> \<open>a missing cell stays missing\<close>
  "lower_strip c = map_option (\<lambda>s. strip (lower s)) c"

subsection \<open>Numerical columns\<close>

definition astype_int :: "rat option \<Rightarrow> rat option" where
  \<comment> \<open>\<open>col.astype(int)\<close>: the fraction is cut off. It raises on a missing cell; the
      columns it is applied to were filled with 0 before.\<close>
  "astype_int c = map_option (\<lambda>x. of_int (if x \<ge> 0 then \<lfloor>x\<rfloor> else \<lceil>x\<rceil>)) c"

definition clip_lower0 :: "rat option \<Rightarrow> rat option" where
  \<comment> \<open>\<open>col.clip(lower=0)\<close>\<close>
  "clip_lower0 c = map_option (max 0) c"

subsection \<open>STEP 2: the deals table\<close>

definition convert_won_date ::
  "(string \<Rightarrow> timestamp option) \<Rightarrow> date_cell deal list \<Rightarrow> date_cell deal list" where
  "convert_won_date parse deals_clean =
     map (\<lambda>r. r\<lparr> won_date := to_datetime parse (won_date r) \<rparr>) deals_clean"

definition standardize_deals :: "'d deal list \<Rightarrow> 'd deal list" where
  "standardize_deals deals_clean =
     map (\<lambda>r. r\<lparr> business_segment := lower_strip (business_segment r),
                 lead_type := lower_strip (lead_type r),
                 lead_behaviour_profile := lower_strip (lead_behaviour_profile r) \<rparr>)
       deals_clean"

definition clean_numerical :: "'d deal list \<Rightarrow> 'd deal list" where
  "clean_numerical deals_clean =
     map (\<lambda>r. r\<lparr> has_company := astype_int (has_company r),
                 has_gtin := astype_int (has_gtin r),
                 average_stock := clip_lower0 (average_stock r),
                 declared_monthly_revenue := clip_lower0 (declared_monthly_revenue r) \<rparr>)
       deals_clean"

definition clean_deals ::
  "(string \<Rightarrow> timestamp option) \<Rightarrow> date_cell deal list \<Rightarrow> date_cell deal list" where
  "clean_deals parse deals_df =
     clean_numerical (standardize_deals (convert_won_date parse
       (fill_numerical (fill_categorical (drop_duplicates deals_df)))))"

subsection \<open>STEP 3: the leads table\<close>

definition fill_leads :: "'d lead list \<Rightarrow> 'd lead list" where
  "fill_leads mql_clean =
     map (\<lambda>r. r\<lparr> origin := fillna_with (Some ''unknown'') (origin r),
                 landing_page_id := fillna_with (Some ''unknown'') (landing_page_id r) \<rparr>)
       mql_clean"

definition convert_first_contact_date ::
  "(string \<Rightarrow> timestamp option) \<Rightarrow> date_cell lead list \<Rightarrow> date_cell lead list" where
  "convert_first_contact_date parse mql_clean =
     map (\<lambda>r. r\<lparr> first_contact_date := to_datetime parse (first_contact_date r) \<rparr>)
       mql_clean"

definition standardize_leads :: "'d lead list \<Rightarrow> 'd lead list" where
  "standardize_leads mql_clean =
     map (\<lambda>r. r\<lparr> origin := lower_strip (origin r) \<rparr>) mql_clean"

definition clean_leads ::
  "(string \<Rightarrow> timestamp option) \<Rightarrow> date_cell lead list \<Rightarrow> date_cell lead list" where
  "clean_leads parse mql_df =
     standardize_leads (convert_first_contact_date parse (fill_leads (drop_duplicates mql_df)))"

subsection \<open>Tables that the cleaning steps leave as they are\<close>

text \<open>
  A row is cleaned when each fill, conversion and standardization of its cells returns the
  cell itself. A numerical column filled with its median is settled when no cell of it is
  missing or every cell is: the median of a column with no value is missing, and filling
  with it changes nothing.
\<close>

definition settled_column :: "('r \<Rightarrow> rat option) \<Rightarrow> 'r list \<Rightarrow> bool" where
  "settled_column col df \<longleftrightarrow> (\<forall>r \<in> set df. col r \<noteq> None) \<or> (\<forall>r \<in> set df. col r = None)"

definition cleaned_deal :: "(string \<Rightarrow> timestamp option) \<Rightarrow> date_cell deal \<Rightarrow> bool" where
  "cleaned_deal parse r \<longleftrightarrow>
     business_segment r \<noteq> None \<and> lower_strip (business_segment r) = business_segment r \<and>
     lead_type r \<noteq> None \<and> lower_strip (lead_type r) = lead_type r \<and>
     lead_behaviour_profile r \<noteq> None \<and>
     lower_strip (lead_behaviour_profile r) = lead_behaviour_profile r \<and>
     business_type r \<noteq> None \<and> sdr_id r \<noteq> None \<and> sr_id r \<noteq> None \<and>
     has_company r \<noteq> None \<and> astype_int (has_company r) = has_company r \<and>
     has_gtin r \<noteq> None \<and> astype_int (has_gtin r) = has_gtin r \<and>
     to_datetime parse (won_date r) = won_date r \<and>
     clip_lower0 (average_stock r) = average_stock r \<and>
     clip_lower0 (declared_monthly_revenue r) = declared_monthly_revenue r"

definition cleaned_deals :: "(string \<Rightarrow> timestamp option) \<Rightarrow> date_cell deal list \<Rightarrow> bool" where
  "cleaned_deals parse df \<longleftrightarrow>
     (\<forall>r \<in> set df. cleaned_deal parse r) \<and>
     settled_column average_stock df \<and>
     settled_column declared_product_catalog_size df \<and>
     settled_column declared_monthly_revenue df"

definition cleaned_lead :: "(string \<Rightarrow> timestamp option) \<Rightarrow> date_cell lead \<Rightarrow> bool" where
  "cleaned_lead parse r \<longleftrightarrow>
     origin r \<noteq> None \<and> lower_strip (origin r) = origin r \<and>
     landing_page_id r \<noteq> None \<and>
     to_datetime parse (first_contact_date r) = first_contact_date r"

section \<open>The Merger (03_data_merging.py)\<close>

subsection \<open>STEP 3: left join of leads with deals on mql\_id\<close>

text \<open>
  \<open>mql_df.merge(deals_df, on='mql_id', how='left')\<close>: every lead row, in order, once for
  each deal row with the same key, and once with all deal columns missing when no deal row
  has its key. The joined row keeps the lead and the matched deal, if any.
\<close>

type_synonym joined = "timestamp option lead \<times> timestamp option deal option"

definition matching_deals :: "'a lead \<Rightarrow> 'b deal list \<Rightarrow> 'b deal list" where
  "matching_deals l deals_df = filter (\<lambda>d. deal_mql_id d = mql_id l) deals_df"

definition merge_left ::
  "timestamp option lead list \<Rightarrow> timestamp option deal list \<Rightarrow> joined list" where
  "merge_left mql_df deals_df =
     concat (map (\<lambda>l. case matching_deals l deals_df of
                          [] \<Rightarrow> [(l, None)]
                        | ms \<Rightarrow> map (\<lambda>d. (l, Some d)) ms) mql_df)"

text \<open>The columns of the joined table that the Merger reads: a deal column of an
  unmatched lead is missing.\<close>

definition col_first_contact_date :: "joined \<Rightarrow> timestamp option" where
  "col_first_contact_date j = first_contact_date (fst j)"

definition col_sdr_id :: "joined \<Rightarrow> string option" where
  "col_sdr_id j = (case snd j of None \<Rightarrow> None | Some d \<Rightarrow> sdr_id d)"

definition col_sr_id :: "joined \<Rightarrow> string option" where
  "col_sr_id j = (case snd j of None \<Rightarrow> None | Some d \<Rightarrow> sr_id d)"

definition col_won_date :: "joined \<Rightarrow> timestamp option" where
  "col_won_date j = (case snd j of None \<Rightarrow> None | Some d \<Rightarrow> won_date d)"

subsection \<open>STEP 4 and STEP 5: stage indicators and conversion flags\<close>

definition notna :: "'a option \<Rightarrow> int" where
  \<comment> \<open>\<open>(~col.isna()).astype(int)\<close>\<close>
  "notna c = (if c = None then 0 else 1)"

definition both :: "bool \<Rightarrow> bool \<Rightarrow> int" where
  \<comment> \<open>\<open>(a & b).astype(int)\<close>\<close>
  "both a b = (if a \<and> b then 1 else 0)"

record master =
  source :: joined
  stage_1_lead_generated :: int
  stage_2_first_contact :: int
  stage_3_sales_qualified :: int
  stage_4_consultation :: int
  stage_5_deal_closed :: int
  is_converted :: int
  dropout_after_lead :: int
  dropout_after_contact :: int
  dropout_after_qualification :: int
  dropout_after_consultation :: int

definition derive :: "joined \<Rightarrow> master" where
  "derive j =
     (let s1 = 1;
          s2 = notna (col_first_contact_date j);
          s3 = notna (col_sdr_id j);
          s4 = notna (col_sr_id j);
          s5 = notna (col_won_date j)
      in \<lparr> source = j,
           stage_1_lead_generated = s1,
           stage_2_first_contact = s2,
           stage_3_sales_qualified = s3,
           stage_4_consultation = s4,
           stage_5_deal_closed = s5,
           is_converted = s5,
           dropout_after_lead = 1 - s2,
           dropout_after_contact = both (s2 = 1) (s3 = 0),
           dropout_after_qualification = both (s3 = 1) (s4 = 0),
           dropout_after_consultation = both (s4 = 1) (s5 = 0) \<rparr>)"

definition merger ::
  "timestamp option lead list \<Rightarrow> timestamp option deal list \<Rightarrow> master list" where
  "merger mql_df deals_df = map derive (merge_left mql_df deals_df)"


subsection \<open>STEP 8: validation of the funnel logic\<close>

definition col_sum :: "(master \<Rightarrow> int) \<Rightarrow> master list \<Rightarrow> int" where
  \<comment> \<open>\<open>master_df[col].sum()\<close>\<close>
  "col_sum col master_df = sum_list (map col master_df)"

definition logic_errors :: "master list \<Rightarrow> string list" where
  "logic_errors master_df =
     (if col_sum stage_2_first_contact master_df > col_sum stage_1_lead_generated master_df
      then [''Stage 2 > Stage 1''] else []) @
     (if col_sum stage_3_sales_qualified master_df > col_sum stage_2_first_contact master_df
      then [''Stage 3 > Stage 2''] else []) @
     (if col_sum stage_4_consultation master_df > col_sum stage_3_sales_qualified master_df
      then [''Stage 4 > Stage 3''] else []) @
     (if col_sum stage_5_deal_closed master_df > col_sum stage_4_consultation master_df
      then [''Stage 5 > Stage 4''] else [])"

text \<open>The Cleaner leaves no deal row with a missing \<open>sdr_id\<close> or \<open>sr_id\<close>: it fills
  both with \<open>'unknown'\<close>.\<close>

definition reps_present :: "'b deal list \<Rightarrow> bool" where
  "reps_present deals_df = (\<forall>d \<in> set deals_df. sdr_id d \<noteq> None \<and> sr_id d \<noteq> None)"

section \<open>The Feature Engine (04_feature_engineering.py)\<close>

text \<open>The three date columns go through \<open>pd.to_datetime(..., errors='coerce')\<close> first.\<close>

subsection \<open>create\_delivery\_delay\_feature\<close>

record delivery_row =
  order_purchase_timestamp :: date_cell
  order_delivered_customer_date :: date_cell
  order_estimated_delivery_date :: date_cell

record delayed_row = delivery_row +
  delivery_delay_days :: int
  is_delayed :: int
  delay_category :: string

definition ns_per_day :: int where
  "ns_per_day = 86400 * 1000000000"

definition timedelta_days :: "date_cell \<Rightarrow> date_cell \<Rightarrow> int option" where
  \<comment> \<open>\<open>(a - b).dt.days\<close>: the whole days of the difference, rounded down; missing when
      either side is\<close>
  "timedelta_days a b =
     (case (a, b) of
        (Datetime x, Datetime y) \<Rightarrow> Some ((x - y) div ns_per_day)
      | _ \<Rightarrow> None)"

definition fillna :: "'a \<Rightarrow> 'a option \<Rightarrow> 'a" where
  "fillna v c = (case c of None \<Rightarrow> v | Some x \<Rightarrow> x)"

definition categorize_delay :: "int \<Rightarrow> string" where
  "categorize_delay days =
     (if days \<le> 0 then ''On Time/Early''
      else if days \<le> 7 then ''Minor Delay (1-7 days)''
      else if days \<le> 30 then ''Major Delay (8-30 days)''
      else ''Severe Delay (30+ days)'')"

definition create_delivery_delay_feature ::
  "(string \<Rightarrow> timestamp option) \<Rightarrow> delivery_row \<Rightarrow> delayed_row" where
  "create_delivery_delay_feature parse r =
     (let purchase = to_datetime parse (delivery_row.order_purchase_timestamp r);
          delivered = to_datetime parse (order_delivered_customer_date r);
          estimated = to_datetime parse (order_estimated_delivery_date r);
          days = fillna 0 (timedelta_days delivered estimated)
      in \<lparr> delivery_row.order_purchase_timestamp = purchase,
           order_delivered_customer_date = delivered,
           order_estimated_delivery_date = estimated,
           delivery_delay_days = days,
           delayed_row.is_delayed = (if days > 0 then 1 else 0),
           delay_category = categorize_delay days \<rparr>)"

section \<open>The Funnel Metrics Engine (05_funnel_analysis.py)\<close>

subsection \<open>Python's floats\<close>

text \<open>
  A Python float is a binary double: a rational \<open>m * 2 ^ e\<close> with an integer \<open>m\<close> of at most
  53 bits and \<open>e \<ge> -1074\<close>. It is modelled by that rational. Every arithmetic operation
  returns the double nearest to the exact result, a tie going to the even mantissa:
  \<open>fl\<close> is that rounding. The quotients of this module lie between -1 and 1, their
  percentages and the differences of these between -100 and 100, so no product or
  difference leaves the range of the doubles; a quotient of two integers that does raises
  \<open>OverflowError\<close>.
\<close>

definition round_half_even :: "rat \<Rightarrow> int" where
  "round_half_even x =
     (let f = \<lfloor>x\<rfloor>; d = x - of_int f
      in if d < 1 / 2 then f else if d > 1 / 2 then f + 1
         else if even f then f else f + 1)"

definition pow2 :: "int \<Rightarrow> rat" where
  "pow2 e = (if e \<ge> 0 then 2 ^ nat e else 1 / 2 ^ nat (- e))"

function mantissa_exponent :: "rat \<Rightarrow> int \<Rightarrow> rat \<times> int" where
  \<comment> \<open>scales a positive \<open>x\<close>, keeping \<open>x * 2 ^ e\<close>, until \<open>2 ^ 52 \<le> x < 2 ^ 53\<close> or the
      least exponent of a double is reached\<close>
  "mantissa_exponent x e =
     (if x \<ge> 2 ^ 53 then mantissa_exponent (x / 2) (e + 1)
      else if x < 2 ^ 52 \<and> e > - 1074 then mantissa_exponent (x * 2) (e - 1)
      else (x, e))"
  by pat_completeness auto
termination
proof (relation "measures [\<lambda>(x, e). if x \<ge> 2 ^ 53 then nat \<lfloor>x\<rfloor> else 0,
                            \<lambda>(x, e). nat (e + 1074)]")
  show "wf (measures [\<lambda>(x :: rat, e :: int). if x \<ge> 2 ^ 53 then nat \<lfloor>x\<rfloor> else 0,
                            \<lambda>(x, e). nat (e + 1074)])"
    by simp
next
  fix x :: rat and e :: int
  assume x: "2 ^ 53 \<le> x"
  have "\<lfloor>x / 2\<rfloor> < \<lfloor>x\<rfloor>"
  proof -
    have "x / 2 + 1 \<le> x" using x by simp
    then have "\<lfloor>x / 2 + 1\<rfloor> \<le> \<lfloor>x\<rfloor>" by (rule floor_mono)
    then show ?thesis by simp
  qed
  moreover have "0 < \<lfloor>x\<rfloor>" using x by (simp add: floor_less_iff less_floor_iff)
  ultimately show "((x / 2, e + 1), x, e) \<in>
      measures [\<lambda>(x, e). if x \<ge> 2 ^ 53 then nat \<lfloor>x\<rfloor> else 0, \<lambda>(x, e). nat (e + 1074)]"
    using x by auto
next
  fix x :: rat and e :: int
  assume "\<not> 2 ^ 53 \<le> x" and "x < 2 ^ 52 \<and> - 1074 < e"
  then show "((x * 2, e - 1), x, e) \<in>
      measures [\<lambda>(x, e). if x \<ge> 2 ^ 53 then nat \<lfloor>x\<rfloor> else 0, \<lambda>(x, e). nat (e + 1074)]"
    by auto
qed

definition fl_pos :: "rat \<Rightarrow> rat" where
  "fl_pos x = (case mantissa_exponent x 0 of (m, e) \<Rightarrow> of_int (round_half_even m) * pow2 e)"

definition fl :: "rat \<Rightarrow> rat" where
  \<comment> \<open>the double nearest to \<open>x\<close>\<close>
  "fl x = (if x = 0 then 0 else if x > 0 then fl_pos x else - fl_pos (- x))"

definition fmul :: "rat \<Rightarrow> rat \<Rightarrow> rat" where
  \<comment> \<open>\<open>x * y\<close> on floats\<close>
  "fmul x y = fl (x * y)"

definition fsub :: "rat \<Rightarrow> rat \<Rightarrow> rat" where
  \<comment> \<open>\<open>x - y\<close> on floats\<close>
  "fsub x y = fl (x - y)"

datatype error = ZeroDivisionError | OverflowError

definition true_div :: "int \<Rightarrow> int \<Rightarrow> error + rat" where
  \<comment> \<open>\<open>a / b\<close> on integers: the double nearest to the exact quotient. It overflows when
      that double would be \<open>2 ^ 1024\<close> or more, that is from the midpoint
      \<open>2 ^ 1024 - 2 ^ 970\<close> of the largest double and \<open>2 ^ 1024\<close> on.\<close>
  "true_div a b =
     (if b = 0 then Inl ZeroDivisionError
      else if \<bar>of_int a / of_int b :: rat\<bar> \<ge> 2 ^ 1024 - 2 ^ 970 then Inl OverflowError
      else Inr (fl (of_int a / of_int b)))"

definition and_then :: "error + 'a \<Rightarrow> ('a \<Rightarrow> error + 'b) \<Rightarrow> error + 'b" where
  "and_then r f = (case r of Inl e \<Rightarrow> Inl e | Inr v \<Rightarrow> f v)"

definition percent_of :: "int \<Rightarrow> int \<Rightarrow> error + rat" where
  \<comment> \<open>\<open>(a / b) * 100\<close>\<close>
  "percent_of a b = and_then (true_div a b) (\<lambda>q. Inr (fmul q 100))"

definition round2 :: "rat \<Rightarrow> rat" where
  \<comment> \<open>\<open>round(x, 2)\<close> of a float \<open>x\<close>: the two-decimal number nearest to the exact value
      of \<open>x\<close>, a tie going to the even hundredth. Python returns the double nearest to
      that number, which prints as it; the result is modelled by the number itself, and
      such doubles compare as their numbers do.\<close>
  "round2 x = of_int (round_half_even (x * 100)) / 100"

subsection \<open>calculate\_customer\_level\_metrics\<close>

record order =
  customer_unique_id :: "string option"
  order_id :: "string option"
  is_delayed :: "int option"
  is_canceled :: "int option"
  has_negative_review :: "int option"
  has_negative_experience :: "int option"
  price :: "rat option"
  customer_state :: "string option"
  order_purchase_timestamp :: "string option"

record customer =
  customer_unique_id :: string
  total_orders :: int
  experienced_delay :: "int option"
  experienced_cancellation :: "int option"
  gave_negative_review :: "int option"
  had_negative_experience :: "int option"
  total_spent :: rat
  customer_state :: "string option"
  first_order_date :: "string option"
  customer_type :: string

text \<open>The aggregations of \<open>groupby(...).agg\<close>: each skips the missing cells of its
  column; \<open>max\<close>, \<open>min\<close> and \<open>first\<close> of no value are missing.\<close>

definition agg_count :: "'a option list \<Rightarrow> int" where
  "agg_count cells = int (length (present cells))"

definition agg_max :: "'a::linorder option list \<Rightarrow> 'a option" where
  "agg_max cells = (case present cells of [] \<Rightarrow> None | v # vs \<Rightarrow> Some (fold max vs v))"

definition agg_min :: "'a::linorder option list \<Rightarrow> 'a option" where
  "agg_min cells = (case present cells of [] \<Rightarrow> None | v # vs \<Rightarrow> Some (fold min vs v))"

definition agg_sum :: "rat option list \<Rightarrow> rat" where
  "agg_sum cells = sum_list (present cells)"

definition agg_first :: "'a option list \<Rightarrow> 'a option" where
  "agg_first cells = (case present cells of [] \<Rightarrow> None | v # vs \<Rightarrow> Some v)"

definition group_keys :: "order list \<Rightarrow> string list" where
  \<comment> \<open>the groups of \<open>groupby('customer_unique_id')\<close>: the distinct keys, sorted; rows with
      a missing key are in no group\<close>
  "group_keys df = sort (remdups (List.map_filter order.customer_unique_id df))"

definition group_rows :: "order list \<Rightarrow> string \<Rightarrow> order list" where
  "group_rows df k = filter (\<lambda>r. order.customer_unique_id r = Some k) df"

definition summarize :: "string \<Rightarrow> order list \<Rightarrow> customer" where
  "summarize k g =
     (let n = agg_count (map order_id g)
      in \<lparr> customer_unique_id = k,
           total_orders = n,
           experienced_delay = agg_max (map is_delayed g),
           experienced_cancellation = agg_max (map is_canceled g),
           gave_negative_review = agg_max (map has_negative_review g),
           had_negative_experience = agg_max (map has_negative_experience g),
           total_spent = agg_sum (map price g),
           customer_state = agg_first (map order.customer_state g),
           first_order_date = agg_min (map order_purchase_timestamp g),
           customer_type = (if n = 1 then ''One-time'' else ''Repeat'') \<rparr>)"

definition calculate_customer_level_metrics :: "order list \<Rightarrow> customer list" where
  "calculate_customer_level_metrics df =
     map (\<lambda>k. summarize k (group_rows df k)) (group_keys df)"

subsection \<open>calculate\_core\_funnel\_metrics\<close>

record core_metrics =
  acquisition_customers :: int
  activation_customers :: int
  retention_customers :: int
  activation_rate_percent :: rat
  retention_rate_percent :: rat
  acquisition_to_activation_dropoff :: int
  activation_to_retention_dropoff :: int
  activation_dropoff_rate_percent :: rat
  retention_dropoff_rate_percent :: rat

definition len_where :: "('a \<Rightarrow> bool) \<Rightarrow> 'a list \<Rightarrow> int" where
  \<comment> \<open>\<open>len(df[condition])\<close>\<close>
  "len_where cond df = int (length (filter cond df))"

definition calculate_core_funnel_metrics :: "customer list \<Rightarrow> error + core_metrics" where
  "calculate_core_funnel_metrics customer_summary =
     (let acquisition = int (length customer_summary);
          activation = len_where (\<lambda>c. total_orders c \<ge> 1) customer_summary;
          retention = len_where (\<lambda>c. total_orders c \<ge> 2) customer_summary
      in and_then (if acquisition > 0 then percent_of activation acquisition else Inr 0)
           (\<lambda>activation_rate.
         and_then (if activation > 0 then percent_of retention activation else Inr 0)
           (\<lambda>retention_rate.
         let acquisition_to_activation = acquisition - activation;
             activation_to_retention = activation - retention
         in and_then (if acquisition > 0
                      then percent_of acquisition_to_activation acquisition else Inr 0)
              (\<lambda>activation_dropoff_rate.
            and_then (if activation > 0
                      then percent_of activation_to_retention activation else Inr 0)
              (\<lambda>retention_dropoff_rate.
            Inr \<lparr> acquisition_customers = acquisition,
                  activation_customers = activation,
                  retention_customers = retention,
                  activation_rate_percent = round2 activation_rate,
                  retention_rate_percent = round2 retention_rate,
                  acquisition_to_activation_dropoff = acquisition_to_activation,
                  activation_to_retention_dropoff = activation_to_retention,
                  activation_dropoff_rate_percent = round2 activation_dropoff_rate,
                  retention_dropoff_rate_percent = round2 retention_dropoff_rate \<rparr>)))))"

subsection \<open>calculate\_retention\_impact and calculate\_dropoff\_reason\_metrics\<close>

record retention_impact =
  retention_without_negative_percent :: rat
  retention_with_negative_percent :: rat
  retention_impact_percent :: rat

definition calculate_retention_impact ::
  "customer list \<Rightarrow> (customer \<Rightarrow> int option) \<Rightarrow> error + retention_impact" where
  "calculate_retention_impact customer_summary negative_experience_column =
     (let no_negative = filter (\<lambda>c. negative_experience_column c = Some 0) customer_summary
      in and_then (if int (length no_negative) > 0
                   then percent_of (len_where (\<lambda>c. total_orders c \<ge> 2) no_negative)
                          (int (length no_negative))
                   else Inr 0)
           (\<lambda>retention_no_negative.
         let with_negative =
               filter (\<lambda>c. negative_experience_column c = Some 1) customer_summary
         in and_then (if int (length with_negative) > 0
                      then percent_of (len_where (\<lambda>c. total_orders c \<ge> 2) with_negative)
                             (int (length with_negative))
                      else Inr 0)
              (\<lambda>retention_with_negative.
            let impact = fsub retention_no_negative retention_with_negative
            in Inr \<lparr> retention_without_negative_percent = round2 retention_no_negative,
                     retention_with_negative_percent = round2 retention_with_negative,
                     retention_impact_percent = round2 impact \<rparr>)))"

record dropoff_metrics =
  customers_with_delays :: int
  customers_with_cancellations :: int
  customers_with_negative_reviews :: int
  customers_with_any_negative_experience :: int
  delay_rate_percent :: rat
  cancellation_rate_percent :: rat
  negative_review_rate_percent :: rat
  any_negative_experience_rate_percent :: rat
  delay_retention_impact :: retention_impact
  cancellation_retention_impact :: retention_impact
  review_retention_impact :: retention_impact

definition calculate_dropoff_reason_metrics :: "customer list \<Rightarrow> error + dropoff_metrics" where
  "calculate_dropoff_reason_metrics customer_summary =
     (let total_customers = int (length customer_summary);
          delay_customers = len_where (\<lambda>c. experienced_delay c = Some 1) customer_summary;
          cancellation_customers =
            len_where (\<lambda>c. experienced_cancellation c = Some 1) customer_summary;
          negative_review_customers =
            len_where (\<lambda>c. gave_negative_review c = Some 1) customer_summary;
          any_negative_customers =
            len_where (\<lambda>c. had_negative_experience c = Some 1) customer_summary
      in and_then (if total_customers > 0
                   then percent_of delay_customers total_customers else Inr 0)
           (\<lambda>delay_percent.
         and_then (if total_customers > 0
                   then percent_of cancellation_customers total_customers else Inr 0)
           (\<lambda>cancellation_percent.
         and_then (if total_customers > 0
                   then percent_of negative_review_customers total_customers else Inr 0)
           (\<lambda>negative_review_percent.
         and_then (if total_customers > 0
                   then percent_of any_negative_customers total_customers else Inr 0)
           (\<lambda>any_negative_percent.
         and_then (calculate_retention_impact customer_summary experienced_delay)
           (\<lambda>delay_impact.
         and_then (calculate_retention_impact customer_summary experienced_cancellation)
           (\<lambda>cancellation_impact.
         and_then (calculate_retention_impact customer_summary gave_negative_review)
           (\<lambda>review_impact.
         Inr \<lparr> customers_with_delays = delay_customers,
               customers_with_cancellations = cancellation_customers,
               customers_with_negative_reviews = negative_review_customers,
               customers_with_any_negative_experience = any_negative_customers,
               delay_rate_percent = round2 delay_percent,
               cancellation_rate_percent = round2 cancellation_percent,
               negative_review_rate_percent = round2 negative_review_percent,
               any_negative_experience_rate_percent = round2 any_negative_percent,
               delay_retention_impact = delay_impact,
               cancellation_retention_impact = cancellation_impact,
               review_retention_impact = review_impact \<rparr>))))))))"

subsection \<open>generate\_metrics\_report: the biggest retention killer\<close>

definition max3 :: "rat \<Rightarrow> rat \<Rightarrow> rat \<Rightarrow> rat" where
  \<comment> \<open>Python's \<open>max(a, b, c)\<close>: the first of the largest\<close>
  "max3 a b c =
     (let m = a; m = (if b > m then b else m); m = (if c > m then c else m) in m)"

definition biggest_retention_killer :: "dropoff_metrics \<Rightarrow> string" where
  "biggest_retention_killer dm =
     (let delay = retention_impact_percent (delay_retention_impact dm);
          cancellation = retention_impact_percent (cancellation_retention_impact dm);
          review = retention_impact_percent (review_retention_impact dm)
      in if delay = max3 delay cancellation review then ''Delivery delays''
         else if cancellation = max3 delay cancellation review then ''Cancellations''
         else ''Negative reviews'')"

section \<open>The rates as the specification words them\<close>

definition spec_percentage :: "int \<Rightarrow> int \<Rightarrow> rat" where
  \<comment> \<open>\<open>a\<close> out of \<open>b\<close> as a percentage, in floats: the quotient, then times 100; 0 when
      \<open>b\<close> is 0\<close>
  "spec_percentage a b = (if b = 0 then 0 else fmul (fl (of_int a / of_int b)) 100)"

definition spec_retention_rate :: "customer list \<Rightarrow> rat" where
  \<comment> \<open>the share of the customers of a group with two or more orders, as a percentage;
      0 for the empty group\<close>
  "spec_retention_rate grp =
     spec_percentage (int (length (filter (\<lambda>c. total_orders c \<ge> 2) grp))) (int (length grp))"

section \<open>Example rows\<close>

definition lead_no_contact :: "timestamp option lead" where
  "lead_no_contact = \<lparr> mql_id = Some ''L1'', first_contact_date = None,
      landing_page_id = Some ''unknown'', origin = Some ''organic_search'' \<rparr>"

definition lead_contacted :: "timestamp option lead" where
  "lead_contacted = \<lparr> mql_id = Some ''L1'', first_contact_date = Some 1517443200000000000,
      landing_page_id = Some ''unknown'', origin = Some ''organic_search'' \<rparr>"

definition deal_won :: "timestamp option deal" where
  "deal_won = \<lparr> deal_mql_id = Some ''L1'', seller_id = Some ''S1'',
      sdr_id = Some ''unknown'', sr_id = Some ''unknown'', won_date = Some 1519862400000000000,
      business_segment = Some ''pet'', lead_type = Some ''online_medium'',
      lead_behaviour_profile = Some ''cat'', has_company = Some 0, has_gtin = Some 0,
      average_stock = Some 0, business_type = Some ''reseller'',
      declared_product_catalog_size = Some 10, declared_monthly_revenue = Some 15000 \<rparr>"

definition order_without_id :: order where
  "order_without_id = \<lparr> order.customer_unique_id = Some ''c1'', order_id = None,
      is_delayed = Some 0, is_canceled = Some 0, has_negative_review = Some 0,
      has_negative_experience = Some 0, price = Some 50, order.customer_state = Some ''SP'',
      order_purchase_timestamp = Some ''2018-01-01 10:00:00'' \<rparr>"

definition order_with_id :: order where
  "order_with_id = \<lparr> order.customer_unique_id = Some ''c1'', order_id = Some ''o1'',
      is_delayed = Some 0, is_canceled = Some 0, has_negative_review = Some 0,
      has_negative_experience = Some 0, price = Some 50, order.customer_state = Some ''SP'',
      order_purchase_timestamp = Some ''2018-01-01 10:00:00'' \<rparr>"


definition customer_B :: customer where
  "customer_B = \<lparr> customer_unique_id = ''B'', total_orders = 1, experienced_delay = Some 1,
      experienced_cancellation = Some 0, gave_negative_review = Some 0,
      had_negative_experience = Some 1, total_spent = 50, customer_state = Some ''RJ'',
      first_order_date = Some ''2018-02-01 10:00:00'', customer_type = ''One-time'' \<rparr>"

definition customer_C :: customer where
  "customer_C = \<lparr> customer_unique_id = ''C'', total_orders = 1, experienced_delay = Some 0,
      experienced_cancellation = Some 0, gave_negative_review = Some 0,
      had_negative_experience = Some 0, total_spent = 50, customer_state = Some ''RJ'',
      first_order_date = Some ''2018-03-01 10:00:00'', customer_type = ''One-time'' \<rparr>"

definition customer_D :: customer where
  "customer_D = \<lparr> customer_unique_id = ''D'', total_orders = 3, experienced_delay = Some 0,
      experienced_cancellation = Some 0, gave_negative_review = Some 0,
      had_negative_experience = Some 0, total_spent = 300, customer_state = Some ''MG'',
      first_order_date = Some ''2018-04-01 10:00:00'', customer_type = ''Repeat'' \<rparr>"

definition customer_no_orders :: customer where
  "customer_no_orders = \<lparr> customer_unique_id = ''E'', total_orders = 0,
      experienced_delay = Some 0, experienced_cancellation = Some 0,
      gave_negative_review = Some 0, had_negative_experience = Some 0, total_spent = 0,
      customer_state = Some ''BA'', first_order_date = None, customer_type = ''Repeat'' \<rparr>"

definition parse_example :: "string \<Rightarrow> timestamp option" where
  "parse_example s = (if s = ''2018-03-01'' then Some 1519862400000000000 else None)"

definition raw_deal_upper :: "date_cell deal" where
  "raw_deal_upper = \<lparr> deal_mql_id = Some ''L1'', seller_id = Some ''S1'',
      sdr_id = None, sr_id = Some ''R1'', won_date = Text ''2018-03-01'',
      business_segment = Some ''Pet '', lead_type = Some ''online_medium'',
      lead_behaviour_profile = Some ''cat'', has_company = None, has_gtin = Some 1,
      average_stock = None, business_type = Some ''reseller'',
      declared_product_catalog_size = Some 10, declared_monthly_revenue = Some 15000 \<rparr>"

definition raw_deal_lower :: "date_cell deal" where
  "raw_deal_lower = raw_deal_upper \<lparr> business_segment := Some ''pet'' \<rparr>"

definition raw_lead :: "date_cell lead" where
  "raw_lead = \<lparr> mql_id = Some ''L1'', first_contact_date = Text ''not a date'',
      landing_page_id = None, origin = Some '' Organic_Search'' \<rparr>"

definition row_late :: delivery_row where
  "row_late = \<lparr> delivery_row.order_purchase_timestamp = Text ''2018-02-20 09:30:00'',
      order_delivered_customer_date = Datetime 1520773200000000000,
      order_estimated_delivery_date = Text ''2018-03-01'' \<rparr>"

definition row_early :: delivery_row where
  "row_early = \<lparr> delivery_row.order_purchase_timestamp = Text ''2018-02-20 09:30:00'',
      order_delivered_customer_date = Datetime 1519711200000000000,
      order_estimated_delivery_date = Text ''2018-03-01'' \<rparr>"

definition row_undelivered :: delivery_row where
  "row_undelivered = \<lparr> delivery_row.order_purchase_timestamp = Text ''2018-02-20 09:30:00'',
      order_delivered_customer_date = NaT,
      order_estimated_delivery_date = Text ''2018-03-01'' \<rparr>"

section \<open>Properties of the Cleaner\<close>

subsection \<open>Each cleaning step applied twice\<close>

lemma set_drop_seen: "set (drop_seen seen xs) = set xs - set seen"
  by (induction xs arbitrary: seen) auto

lemma distinct_drop_seen: "distinct (drop_seen seen xs)"
  by (induction xs arbitrary: seen) (auto simp: set_drop_seen)

lemma drop_seen_distinct_id:
  "distinct xs \<Longrightarrow> set xs \<inter> set seen = {} \<Longrightarrow> drop_seen seen xs = xs"
  by (induction xs arbitrary: seen) auto

lemma set_drop_duplicates: "set (drop_duplicates xs) = set xs"
  by (simp add: drop_duplicates_def set_drop_seen)

lemma distinct_drop_duplicates: "distinct (drop_duplicates xs)"
  by (simp add: drop_duplicates_def distinct_drop_seen)

lemma drop_duplicates_distinct_id: "distinct xs \<Longrightarrow> drop_duplicates xs = xs"
  by (simp add: drop_duplicates_def drop_seen_distinct_id)

lemma drop_duplicates_idem: "drop_duplicates (drop_duplicates xs) = drop_duplicates xs"
  by (simp add: drop_duplicates_distinct_id distinct_drop_duplicates)

lemma lower_char_idem: "lower_char (lower_char c) = lower_char c"
  by (auto simp: lower_char_def Let_def)

lemma lower_idem: "lower (lower s) = lower s"
  by (simp add: lower_def lower_char_idem)

lemma strip_subset: "set (strip s) \<subseteq> set s"
  unfolding strip_def by (auto dest!: set_dropWhileD)

lemma strip_idem: "strip (strip s) = strip s"
proof -
  define y where "y = dropWhile is_space s"
  define z where "z = dropWhile is_space (rev y)"
  have y: "y = [] \<or> \<not> is_space (hd y)"
    unfolding y_def by (metis hd_dropWhile)
  have ry: "rev y = takeWhile is_space (rev y) @ z"
    unfolding z_def by simp
  then have "y = rev z @ rev (takeWhile is_space (rev y))"
    by (metis rev_append rev_rev_ident)
  then obtain sfx where yz: "y = rev z @ sfx" ..
  have "rev z = [] \<or> \<not> is_space (hd (rev z))"
  proof (cases "rev z")
    case Nil
    then show ?thesis by simp
  next
    case (Cons a as)
    with yz have "y = a # (as @ sfx)" by simp
    then have "hd y = a" "y \<noteq> []" by simp_all
    with y Cons show ?thesis by simp
  qed
  then have 1: "dropWhile is_space (rev z) = rev z"
    by (simp add: dropWhile_eq_self_iff)
  have 2: "dropWhile is_space z = z"
    unfolding z_def by (simp add: dropWhile_eq_self_iff hd_dropWhile)
  have "strip s = rev z"
    by (simp add: strip_def y_def z_def)
  moreover have "strip (rev z) = rev z"
    using 1 2 by (simp add: strip_def)
  ultimately show ?thesis by simp
qed

lemma lower_strip_lower: "lower (strip (lower s)) = strip (lower s)"
proof -
  have "\<forall>c \<in> set (strip (lower s)). lower_char c = c"
    using strip_subset [of "lower s"] by (auto simp: lower_def lower_char_idem)
  then show ?thesis
    unfolding lower_def [of "strip _"] by (simp add: map_idI)
qed

lemma lower_strip_idem: "lower_strip (lower_strip c) = lower_strip c"
  by (cases c) (simp_all add: lower_strip_def lower_strip_lower strip_idem)

lemma to_datetime_idem: "to_datetime parse (to_datetime parse c) = to_datetime parse c"
  by (simp add: to_datetime_def split: date_cell.split option.split)

lemma astype_int_idem: "astype_int (astype_int c) = astype_int c"
  by (cases c) (auto simp: astype_int_def)

lemma clip_lower0_idem: "clip_lower0 (clip_lower0 c) = clip_lower0 c"
  by (cases c) (auto simp: clip_lower0_def)


subsection \<open>The second run\<close>

lemma fillna_with_present: "c \<noteq> None \<Longrightarrow> fillna_with v c = c"
  by (cases c) (simp_all add: fillna_with_def)

lemma fillna_with_None: "fillna_with None c = c"
  by (cases c) (simp_all add: fillna_with_def)

lemma fillna_with_Some_present: "fillna_with (Some v) c \<noteq> None"
  by (cases c) (simp_all add: fillna_with_def)

lemma present_all_None: "\<forall>c \<in> set cells. c = None \<Longrightarrow> present cells = []"
  unfolding present_def by (induction cells) simp_all

lemma present_Nil_all_None: "present cells = [] \<Longrightarrow> \<forall>c \<in> set cells. c = None"
  unfolding present_def by (induction cells) (auto split: option.splits)

lemma median_all_None: "\<forall>c \<in> set cells. c = None \<Longrightarrow> median cells = None"
  by (simp add: median_def present_all_None)

lemma median_None_all_None: "median cells = None \<Longrightarrow> \<forall>c \<in> set cells. c = None"
proof -
  assume "median cells = None"
  then have "sort (present cells) = []"
    by (simp add: median_def Let_def split: if_splits)
  then have "length (present cells) = 0"
    by (metis length_sort list.size(3))
  then have "present cells = []" by simp
  then show ?thesis by (rule present_Nil_all_None)
qed

lemma settled_fill:
  assumes "settled_column col df" and "r \<in> set df"
  shows "fillna_with (median (map col df)) (col r) = col r"
  using assms(1) unfolding settled_column_def
proof
  assume "\<forall>r \<in> set df. col r \<noteq> None"
  with assms(2) show ?thesis by (simp add: fillna_with_present)
next
  assume "\<forall>r \<in> set df. col r = None"
  then have "median (map col df) = None" by (simp add: median_all_None)
  then show ?thesis by (simp add: fillna_with_None)
qed

lemma settled_subset:
  "settled_column col df \<Longrightarrow> set v \<subseteq> set df \<Longrightarrow> settled_column col v"
  unfolding settled_column_def by blast

lemma cleaned_deals_subset:
  "cleaned_deals parse df \<Longrightarrow> set v \<subseteq> set df \<Longrightarrow> cleaned_deals parse v"
  unfolding cleaned_deals_def by (blast intro: settled_subset)

lemma cleaned_fill_categorical:
  "cleaned_deals parse df \<Longrightarrow> fill_categorical df = df"
  unfolding fill_categorical_def cleaned_deals_def cleaned_deal_def
  by (rule map_idI) (simp add: fillna_with_present)

lemma cleaned_fill_numerical:
  assumes "cleaned_deals parse df"
  shows "fill_numerical df = df"
  unfolding fill_numerical_def
proof (rule map_idI)
  fix r assume r: "r \<in> set df"
  with assms have "has_company r \<noteq> None" "has_gtin r \<noteq> None"
    by (simp_all add: cleaned_deals_def cleaned_deal_def)
  moreover from assms r
  have "fillna_with (median (map average_stock df)) (average_stock r) = average_stock r"
    "fillna_with (median (map declared_product_catalog_size df))
       (declared_product_catalog_size r) = declared_product_catalog_size r"
    "fillna_with (median (map declared_monthly_revenue df)) (declared_monthly_revenue r)
       = declared_monthly_revenue r"
    by (simp_all add: cleaned_deals_def settled_fill)
  ultimately show "r\<lparr>has_company := fillna_with (Some 0) (has_company r),
        has_gtin := fillna_with (Some 0) (has_gtin r),
        average_stock := fillna_with (median (map average_stock df)) (average_stock r),
        declared_product_catalog_size :=
          fillna_with (median (map declared_product_catalog_size df))
            (declared_product_catalog_size r),
        declared_monthly_revenue :=
          fillna_with (median (map declared_monthly_revenue df))
            (declared_monthly_revenue r)\<rparr> = r"
    by (simp add: fillna_with_present)
qed

lemma cleaned_convert_won_date:
  "cleaned_deals parse df \<Longrightarrow> convert_won_date parse df = df"
  unfolding convert_won_date_def cleaned_deals_def cleaned_deal_def
  by (rule map_idI) simp

lemma cleaned_standardize_deals:
  "cleaned_deals parse df \<Longrightarrow> standardize_deals df = df"
  unfolding standardize_deals_def cleaned_deals_def cleaned_deal_def
  by (rule map_idI) simp

lemma cleaned_clean_numerical:
  "cleaned_deals parse df \<Longrightarrow> clean_numerical df = df"
  unfolding clean_numerical_def cleaned_deals_def cleaned_deal_def
  by (rule map_idI) simp


lemma astype_int_None: "astype_int c = None \<longleftrightarrow> c = None"
  by (simp add: astype_int_def)

lemma clip_lower0_None: "clip_lower0 c = None \<longleftrightarrow> c = None"
  by (simp add: clip_lower0_def)

lemma lower_strip_None: "lower_strip c = None \<longleftrightarrow> c = None"
  by (simp add: lower_strip_def)

lemma fillna_with_Some_ex: "\<exists>y. fillna_with (Some v) c = Some y"
  by (cases c) (simp_all add: fillna_with_def)

lemma astype_int_ex: "(\<exists>y. astype_int c = Some y) \<longleftrightarrow> (\<exists>y. c = Some y)"
  by (cases c) (simp_all add: astype_int_def)

lemma clip_lower0_ex: "(\<exists>y. clip_lower0 c = Some y) \<longleftrightarrow> (\<exists>y. c = Some y)"
  by (cases c) (simp_all add: clip_lower0_def)

lemma lower_strip_ex: "(\<exists>y. lower_strip c = Some y) \<longleftrightarrow> (\<exists>y. c = Some y)"
  by (cases c) (simp_all add: lower_strip_def)

lemma settled_column_cells:
  "settled_column col df \<longleftrightarrow>
     (\<forall>c \<in> set (map col df). c \<noteq> None) \<or> (\<forall>c \<in> set (map col df). c = None)"
  by (auto simp: settled_column_def)

lemma filled_cells_settled:
  assumes "\<And>c. k c = None \<longleftrightarrow> c = None"
  shows "(\<forall>c \<in> set (map (\<lambda>r. k (fillna_with (median (map col d)) (col r))) d). c \<noteq> None) \<or>
         (\<forall>c \<in> set (map (\<lambda>r. k (fillna_with (median (map col d)) (col r))) d). c = None)"
proof (cases "median (map col d)")
  case None
  then have "\<forall>r \<in> set d. col r = None"
    using median_None_all_None [of "map col d"] by simp
  with None show ?thesis by (simp add: assms fillna_with_None)
next
  case (Some v)
  then show ?thesis by (simp add: assms fillna_with_Some_present del: not_None_eq)
qed

lemma clean_deals_rows:
  "r' \<in> set (clean_deals parse t) \<Longrightarrow> cleaned_deal parse r'"
  by (auto simp: clean_deals_def clean_numerical_def standardize_deals_def
        convert_won_date_def fill_numerical_def fill_categorical_def cleaned_deal_def
        lower_strip_idem lower_strip_ex astype_int_idem astype_int_ex clip_lower0_idem
        to_datetime_idem fillna_with_Some_ex)

lemma clean_deals_average_stock:
  "map average_stock (clean_deals parse t) =
     map (\<lambda>r. clip_lower0 (fillna_with (median (map average_stock (drop_duplicates t)))
                            (average_stock r))) (drop_duplicates t)"
  by (simp add: clean_deals_def clean_numerical_def standardize_deals_def
        convert_won_date_def fill_numerical_def fill_categorical_def comp_def)

lemma clean_deals_catalog_size:
  "map declared_product_catalog_size (clean_deals parse t) =
     map (\<lambda>r. id (fillna_with (median (map declared_product_catalog_size (drop_duplicates t)))
                   (declared_product_catalog_size r))) (drop_duplicates t)"
  by (simp add: clean_deals_def clean_numerical_def standardize_deals_def
        convert_won_date_def fill_numerical_def fill_categorical_def comp_def)

lemma clean_deals_revenue:
  "map declared_monthly_revenue (clean_deals parse t) =
     map (\<lambda>r. clip_lower0 (fillna_with (median (map declared_monthly_revenue (drop_duplicates t)))
                            (declared_monthly_revenue r))) (drop_duplicates t)"
  by (simp add: clean_deals_def clean_numerical_def standardize_deals_def
        convert_won_date_def fill_numerical_def fill_categorical_def comp_def)

lemma clean_deals_cleaned: "cleaned_deals parse (clean_deals parse t)"
proof -
  have 1: "settled_column average_stock (clean_deals parse t)"
    unfolding settled_column_cells clean_deals_average_stock
    by (rule filled_cells_settled) (rule clip_lower0_None)
  have 2: "settled_column declared_product_catalog_size (clean_deals parse t)"
    unfolding settled_column_cells clean_deals_catalog_size
    by (rule filled_cells_settled) simp
  have 3: "settled_column declared_monthly_revenue (clean_deals parse t)"
    unfolding settled_column_cells clean_deals_revenue
    by (rule filled_cells_settled) (rule clip_lower0_None)
  from 1 2 3 show ?thesis
    by (simp add: cleaned_deals_def clean_deals_rows)
qed

lemma cleaned_deals_second_run:
  assumes "cleaned_deals parse df"
  shows "clean_deals parse df = drop_duplicates df"
    and "fill_numerical (fill_categorical (drop_duplicates df)) = drop_duplicates df"
proof -
  have c: "cleaned_deals parse (drop_duplicates df)"
    using assms by (rule cleaned_deals_subset) (simp add: set_drop_duplicates)
  show "fill_numerical (fill_categorical (drop_duplicates df)) = drop_duplicates df"
    by (simp add: cleaned_fill_categorical [OF c] cleaned_fill_numerical [OF c])
  then show "clean_deals parse df = drop_duplicates df"
    by (simp add: clean_deals_def cleaned_convert_won_date [OF c]
          cleaned_standardize_deals [OF c] cleaned_clean_numerical [OF c])
qed

lemma clean_leads_rows:
  "r' \<in> set (clean_leads parse t) \<Longrightarrow> cleaned_lead parse r'"
  by (auto simp: clean_leads_def standardize_leads_def convert_first_contact_date_def
        fill_leads_def cleaned_lead_def lower_strip_idem lower_strip_ex to_datetime_idem
        fillna_with_Some_ex)

lemma cleaned_leads_second_run:
  assumes "\<forall>r \<in> set df. cleaned_lead parse r"
  shows "clean_leads parse df = drop_duplicates df"
    and "fill_leads (drop_duplicates df) = drop_duplicates df"
proof -
  have c: "\<forall>r \<in> set (drop_duplicates df). cleaned_lead parse r"
    using assms by (simp add: set_drop_duplicates)
  show f: "fill_leads (drop_duplicates df) = drop_duplicates df"
    unfolding fill_leads_def using c
    by (intro map_idI) (simp add: cleaned_lead_def fillna_with_present)
  have d: "convert_first_contact_date parse (drop_duplicates df) = drop_duplicates df"
    unfolding convert_first_contact_date_def using c
    by (intro map_idI) (simp add: cleaned_lead_def)
  have s: "standardize_leads (drop_duplicates df) = drop_duplicates df"
    unfolding standardize_leads_def using c
    by (intro map_idI) (simp add: cleaned_lead_def)
  show "clean_leads parse df = drop_duplicates df"
    by (simp add: clean_leads_def f d s)
qed

lemma clean_deals_reps_present: "reps_present (clean_deals parse t)"
  using clean_deals_rows [of _ parse t] by (auto simp: reps_present_def cleaned_deal_def)


text \<open>
  Claim C7, as the code has it. Run on its own output, the Cleaner performs no fill (the
  fill steps return the table they are given) and changes no cell; it removes exactly the
  rows of that output that are equal to an earlier row, rows that a step of the first run
  after its duplicate removal (a fill, the date conversion, the lower-casing and trimming,
  the integer cast or the clipping) made equal. The output of the first run is a fixed
  point, with no duplicate removed, when its rows are pairwise distinct; the output of the
  second run always is a fixed point.
\<close>

theorem cleaner_second_run:
  "clean_deals parse (clean_deals parse deals_df) = drop_duplicates (clean_deals parse deals_df) \<and>
   clean_leads parse (clean_leads parse mql_df) = drop_duplicates (clean_leads parse mql_df) \<and>
   fill_numerical (fill_categorical (drop_duplicates (clean_deals parse deals_df)))
     = drop_duplicates (clean_deals parse deals_df) \<and>
   fill_leads (drop_duplicates (clean_leads parse mql_df))
     = drop_duplicates (clean_leads parse mql_df) \<and>
   (distinct (clean_deals parse deals_df) \<longrightarrow>
      clean_deals parse (clean_deals parse deals_df) = clean_deals parse deals_df \<and>
      duplicates_removed (clean_deals parse deals_df) = 0) \<and>
   (distinct (clean_leads parse mql_df) \<longrightarrow>
      clean_leads parse (clean_leads parse mql_df) = clean_leads parse mql_df \<and>
      duplicates_removed (clean_leads parse mql_df) = 0) \<and>
   clean_deals parse (clean_deals parse (clean_deals parse deals_df))
     = clean_deals parse (clean_deals parse deals_df) \<and>
   clean_leads parse (clean_leads parse (clean_leads parse mql_df))
     = clean_leads parse (clean_leads parse mql_df)"
proof -
  let ?D = "clean_deals parse deals_df" and ?L = "clean_leads parse mql_df"
  have cd: "cleaned_deals parse ?D" by (rule clean_deals_cleaned)
  have cl: "\<forall>r \<in> set ?L. cleaned_lead parse r" by (simp add: clean_leads_rows)
  have d2: "clean_deals parse ?D = drop_duplicates ?D"
    by (rule cleaned_deals_second_run(1) [OF cd])
  have l2: "clean_leads parse ?L = drop_duplicates ?L"
    by (rule cleaned_leads_second_run(1) [OF cl])
  have fd: "fill_numerical (fill_categorical (drop_duplicates ?D)) = drop_duplicates ?D"
    by (rule cleaned_deals_second_run(2) [OF cd])
  have fl: "fill_leads (drop_duplicates ?L) = drop_duplicates ?L"
    by (rule cleaned_leads_second_run(2) [OF cl])
  have dd: "clean_deals parse ?D = ?D \<and> duplicates_removed ?D = 0" if "distinct ?D"
    using that d2
    by (simp add: drop_duplicates_distinct_id duplicates_removed_def duplicated_sum_def)
  have dl: "clean_leads parse ?L = ?L \<and> duplicates_removed ?L = 0" if "distinct ?L"
    using that l2
    by (simp add: drop_duplicates_distinct_id duplicates_removed_def duplicated_sum_def)
  have cd2: "cleaned_deals parse (clean_deals parse ?D)" by (rule clean_deals_cleaned)
  have d3: "clean_deals parse (clean_deals parse ?D) = clean_deals parse ?D"
    using cleaned_deals_second_run(1) [OF cd2] d2 by (simp add: drop_duplicates_idem)
  have cl2: "\<forall>r \<in> set (clean_leads parse ?L). cleaned_lead parse r"
    by (simp add: clean_leads_rows)
  have l3: "clean_leads parse (clean_leads parse ?L) = clean_leads parse ?L"
    using cleaned_leads_second_run(1) [OF cl2] l2 by (simp add: drop_duplicates_idem)
  from d2 l2 fd fl dd dl d3 l3 show ?thesis by blast
qed


text \<open>The theorem at one raw deal row and one raw lead row: their cleaned tables have
  one row each and are fixed points.\<close>

theorem cleaner_second_run_witness:
  "distinct (clean_deals parse_example [raw_deal_upper]) \<and>
   clean_deals parse_example (clean_deals parse_example [raw_deal_upper])
     = clean_deals parse_example [raw_deal_upper] \<and>
   duplicates_removed (clean_deals parse_example [raw_deal_upper]) = 0 \<and>
   distinct (clean_leads parse_example [raw_lead]) \<and>
   clean_leads parse_example (clean_leads parse_example [raw_lead])
     = clean_leads parse_example [raw_lead] \<and>
   clean_leads parse_example [raw_lead] =
     [\<lparr> mql_id = Some ''L1'', first_contact_date = NaT,
        landing_page_id = Some ''unknown'', origin = Some ''organic_search'' \<rparr>]"
proof -
  have d: "distinct (clean_deals parse_example [raw_deal_upper])"
    by (simp add: clean_deals_def clean_numerical_def standardize_deals_def
          convert_won_date_def fill_numerical_def fill_categorical_def drop_duplicates_def)
  have l: "distinct (clean_leads parse_example [raw_lead])"
    by (simp add: clean_leads_def standardize_leads_def convert_first_contact_date_def
          fill_leads_def drop_duplicates_def)
  have v: "clean_leads parse_example [raw_lead] =
     [\<lparr> mql_id = Some ''L1'', first_contact_date = NaT,
        landing_page_id = Some ''unknown'', origin = Some ''organic_search'' \<rparr>]"
    by code_simp
  from cleaner_second_run [of parse_example "[raw_deal_upper]" "[raw_lead]"] d l
  have "clean_deals parse_example (clean_deals parse_example [raw_deal_upper])
          = clean_deals parse_example [raw_deal_upper] \<and>
        duplicates_removed (clean_deals parse_example [raw_deal_upper]) = 0 \<and>
        clean_leads parse_example (clean_leads parse_example [raw_lead])
          = clean_leads parse_example [raw_lead]"
    by blast
  with d l v show ?thesis by blast
qed


text \<open>Claim C7 as stated fails: two raw deal rows that differ only in the case and the
  trailing blank of \<open>business_segment\<close> both survive the duplicate removal, are made
  equal by the standardization after it, and the second run removes one of them.\<close>

theorem cleaner_counterexample:
  "length (clean_deals parse_example [raw_deal_upper, raw_deal_lower]) = 2 \<and>
   duplicates_removed (clean_deals parse_example [raw_deal_upper, raw_deal_lower]) = 1 \<and>
   length (clean_deals parse_example
             (clean_deals parse_example [raw_deal_upper, raw_deal_lower])) = 1"
  by code_simp


section \<open>Properties of the Merger\<close>

lemma merge_left_row:
  assumes "(l, x) \<in> set (merge_left mql_df deals_df)"
  shows "l \<in> set mql_df \<and>
     (case x of None \<Rightarrow> matching_deals l deals_df = []
              | Some d \<Rightarrow> d \<in> set (matching_deals l deals_df))"
proof -
  from assms obtain l' where l': "l' \<in> set mql_df"
    and mem: "(l, x) \<in> set (case matching_deals l' deals_df of
                      [] \<Rightarrow> [(l', None)] | ms \<Rightarrow> map (\<lambda>d. (l', Some d)) ms)"
    by (auto simp: merge_left_def)
  show ?thesis
  proof (cases "matching_deals l' deals_df")
    case Nil
    with mem l' show ?thesis by simp
  next
    case (Cons d ds)
    with mem l' show ?thesis by auto
  qed
qed

lemma merger_row:
  assumes "m \<in> set (merger mql_df deals_df)"
  shows "m = derive (source m) \<and> source m \<in> set (merge_left mql_df deals_df)"
  using assms by (auto simp: merger_def derive_def Let_def)

lemma matched_reps:
  assumes "reps_present deals_df" "(l, Some d) \<in> set (merge_left mql_df deals_df)"
  shows "sdr_id d \<noteq> None \<and> sr_id d \<noteq> None"
proof -
  from merge_left_row [OF assms(2)] have "d \<in> set deals_df"
    by (simp add: matching_deals_def)
  with assms(1) show ?thesis by (simp add: reps_present_def)
qed

lemma row_le:
  assumes "reps_present deals_df" "m \<in> set (merger mql_df deals_df)"
  shows "stage_5_deal_closed m \<le> stage_4_consultation m"
    and "stage_4_consultation m \<le> stage_3_sales_qualified m"
    and "stage_3_sales_qualified m \<le> stage_1_lead_generated m"
    and "stage_2_first_contact m \<le> stage_1_lead_generated m"
proof -
  obtain l x where j: "source m = (l, x)" by (cases "source m")
  from merger_row [OF assms(2)] j
  have m: "m = derive (l, x)" and mem: "(l, x) \<in> set (merge_left mql_df deals_df)"
    by simp_all
  have "x = None \<or> (\<exists>d. x = Some d \<and> sdr_id d \<noteq> None \<and> sr_id d \<noteq> None)"
    using matched_reps [OF assms(1)] mem by (cases x) auto
  then show "stage_5_deal_closed m \<le> stage_4_consultation m"
    and "stage_4_consultation m \<le> stage_3_sales_qualified m"
    and "stage_3_sales_qualified m \<le> stage_1_lead_generated m"
    and "stage_2_first_contact m \<le> stage_1_lead_generated m"
    using m by (auto simp: derive_def col_sdr_id_def col_sr_id_def col_won_date_def notna_def)
qed

lemma row_le32:
  assumes "\<forall>l \<in> set mql_df. matching_deals l deals_df \<noteq> [] \<longrightarrow> first_contact_date l \<noteq> None"
    and "m \<in> set (merger mql_df deals_df)"
  shows "stage_3_sales_qualified m \<le> stage_2_first_contact m"
proof -
  obtain l x where j: "source m = (l, x)" by (cases "source m")
  from merger_row [OF assms(2)] j
  have m: "m = derive (l, x)" and mem: "(l, x) \<in> set (merge_left mql_df deals_df)"
    by simp_all
  show ?thesis
  proof (cases x)
    case None
    with m show ?thesis
      by (simp add: derive_def col_sdr_id_def notna_def)
  next
    case (Some d)
    with merge_left_row [OF mem] have "l \<in> set mql_df" "matching_deals l deals_df \<noteq> []"
      by auto
    with assms(1) have "first_contact_date l \<noteq> None" by blast
    with m show ?thesis
      by (simp add: derive_def col_first_contact_date_def notna_def)
  qed
qed

lemma col_sum_mono:
  "(\<And>m. m \<in> set M \<Longrightarrow> f m \<le> g m) \<Longrightarrow> col_sum f M \<le> col_sum g M"
  unfolding col_sum_def by (rule sum_list_mono)

text \<open>
  Claim C1, as the code has it. When every deal row has its \<open>sdr_id\<close> and \<open>sr_id\<close> (as
  the Cleaner leaves them), the stage sums of the Merger's output satisfy
  stage5 \<le> stage4 \<le> stage3 \<le> stage1 and stage2 \<le> stage1. The step stage3 \<le> stage2
  holds when every lead that matches a deal has a first contact date; in every case the
  validation of STEP 8 records \<open>Stage 3 > Stage 2\<close> exactly when that step fails, and
  records nothing else.
\<close>

theorem funnel_counts_monotonic:
  assumes "reps_present deals_df"
  shows "col_sum stage_5_deal_closed (merger mql_df deals_df)
           \<le> col_sum stage_4_consultation (merger mql_df deals_df) \<and>
         col_sum stage_4_consultation (merger mql_df deals_df)
           \<le> col_sum stage_3_sales_qualified (merger mql_df deals_df) \<and>
         col_sum stage_3_sales_qualified (merger mql_df deals_df)
           \<le> col_sum stage_1_lead_generated (merger mql_df deals_df) \<and>
         col_sum stage_2_first_contact (merger mql_df deals_df)
           \<le> col_sum stage_1_lead_generated (merger mql_df deals_df) \<and>
         ((\<forall>l \<in> set mql_df. matching_deals l deals_df \<noteq> [] \<longrightarrow> first_contact_date l \<noteq> None)
            \<longrightarrow> col_sum stage_3_sales_qualified (merger mql_df deals_df)
                  \<le> col_sum stage_2_first_contact (merger mql_df deals_df)) \<and>
         logic_errors (merger mql_df deals_df) =
           (if col_sum stage_3_sales_qualified (merger mql_df deals_df)
                 > col_sum stage_2_first_contact (merger mql_df deals_df)
            then [''Stage 3 > Stage 2''] else [])"
proof -
  let ?M = "merger mql_df deals_df"
  have 54: "col_sum stage_5_deal_closed ?M \<le> col_sum stage_4_consultation ?M"
    by (rule col_sum_mono) (rule row_le(1) [OF assms])
  have 43: "col_sum stage_4_consultation ?M \<le> col_sum stage_3_sales_qualified ?M"
    by (rule col_sum_mono) (rule row_le(2) [OF assms])
  have 31: "col_sum stage_3_sales_qualified ?M \<le> col_sum stage_1_lead_generated ?M"
    by (rule col_sum_mono) (rule row_le(3) [OF assms])
  have 21: "col_sum stage_2_first_contact ?M \<le> col_sum stage_1_lead_generated ?M"
    by (rule col_sum_mono) (rule row_le(4) [OF assms])
  have 32: "col_sum stage_3_sales_qualified ?M \<le> col_sum stage_2_first_contact ?M"
    if "\<forall>l \<in> set mql_df. matching_deals l deals_df \<noteq> [] \<longrightarrow> first_contact_date l \<noteq> None"
    by (rule col_sum_mono) (rule row_le32 [OF that])
  have le: "logic_errors ?M =
           (if col_sum stage_3_sales_qualified ?M > col_sum stage_2_first_contact ?M
            then [''Stage 3 > Stage 2''] else [])"
    using 54 43 21 by (simp add: logic_errors_def)
  from 54 43 31 21 32 le show ?thesis by blast
qed

text \<open>The theorem at a lead with a first contact date and its won deal: the five sums
  are all 1 and no logic error is recorded.\<close>

theorem funnel_counts_monotonic_witness:
  "reps_present [deal_won] \<and>
   col_sum stage_3_sales_qualified (merger [lead_contacted] [deal_won])
     \<le> col_sum stage_2_first_contact (merger [lead_contacted] [deal_won]) \<and>
   col_sum stage_5_deal_closed (merger [lead_contacted] [deal_won])
     \<le> col_sum stage_4_consultation (merger [lead_contacted] [deal_won]) \<and>
   logic_errors (merger [lead_contacted] [deal_won]) = []"
proof -
  have h: "reps_present [deal_won]"
    by (simp add: reps_present_def deal_won_def)
  have c: "\<forall>l \<in> set [lead_contacted].
             matching_deals l [deal_won] \<noteq> [] \<longrightarrow> first_contact_date l \<noteq> None"
    by (simp add: lead_contacted_def)
  from funnel_counts_monotonic [OF h, of "[lead_contacted]"] c h show ?thesis
    by (simp split: if_splits)
qed

text \<open>Claim C1 as stated fails: a lead whose first contact date is missing (a date the
  Cleaner could not parse) and that has a deal counts for stage 3 and not for stage 2.\<close>

theorem funnel_counts_counterexample:
  "reps_present [deal_won] \<and>
   col_sum stage_2_first_contact (merger [lead_no_contact] [deal_won]) = 0 \<and>
   col_sum stage_3_sales_qualified (merger [lead_no_contact] [deal_won]) = 1 \<and>
   logic_errors (merger [lead_no_contact] [deal_won]) = [''Stage 3 > Stage 2'']"
  by (simp add: reps_present_def merger_def merge_left_def matching_deals_def derive_def
        col_sum_def col_first_contact_date_def col_sdr_id_def col_sr_id_def col_won_date_def
        notna_def logic_errors_def lead_no_contact_def deal_won_def)




text \<open>
  Claim C10. When every deal row has its \<open>sdr_id\<close> and \<open>sr_id\<close>, every output row of the
  Merger has \<open>stage_3_sales_qualified\<close> = \<open>stage_4_consultation\<close>, both 1 when the lead
  matches a deal row and 0 when it matches none, and \<open>dropout_after_qualification\<close> = 0.
\<close>

theorem stage3_eq_stage4:
  assumes "reps_present deals_df" and "m \<in> set (merger mql_df deals_df)"
  shows "stage_3_sales_qualified m = stage_4_consultation m \<and>
         stage_3_sales_qualified m =
           (if matching_deals (fst (source m)) deals_df = [] then 0 else 1) \<and>
         dropout_after_qualification m = 0"
proof -
  obtain l x where j: "source m = (l, x)" by (cases "source m")
  from merger_row [OF assms(2)] j
  have m: "m = derive (l, x)" and mem: "(l, x) \<in> set (merge_left mql_df deals_df)"
    by simp_all
  show ?thesis
  proof (cases x)
    case None
    with merge_left_row [OF mem] have "matching_deals l deals_df = []" by simp
    with None m j show ?thesis
      by (simp add: derive_def col_sdr_id_def col_sr_id_def notna_def both_def)
  next
    case (Some d)
    with merge_left_row [OF mem] have ne: "matching_deals l deals_df \<noteq> []" by auto
    from matched_reps [OF assms(1)] mem Some
    have "sdr_id d \<noteq> None" "sr_id d \<noteq> None" by blast+
    with Some m j ne show ?thesis
      by (simp add: derive_def col_sdr_id_def col_sr_id_def notna_def both_def)
  qed
qed

text \<open>The theorem at a lead joined with its deal: both flags are 1.\<close>

theorem stage3_eq_stage4_witness:
  "reps_present [deal_won] \<and>
   derive (lead_contacted, Some deal_won) \<in> set (merger [lead_contacted] [deal_won]) \<and>
   stage_3_sales_qualified (derive (lead_contacted, Some deal_won)) = 1 \<and>
   stage_4_consultation (derive (lead_contacted, Some deal_won)) = 1 \<and>
   dropout_after_qualification (derive (lead_contacted, Some deal_won)) = 0"
proof -
  have h: "reps_present [deal_won]"
    by (simp add: reps_present_def deal_won_def)
  have e: "derive (lead_contacted, Some deal_won) \<in> set (merger [lead_contacted] [deal_won])"
    by (simp add: merger_def merge_left_def matching_deals_def lead_contacted_def
          deal_won_def)
  have s: "source (derive (lead_contacted, Some deal_won)) = (lead_contacted, Some deal_won)"
    by (simp add: derive_def Let_def)
  from stage3_eq_stage4 [OF h e] h e s show ?thesis
    by (simp add: matching_deals_def lead_contacted_def deal_won_def)
qed

section \<open>Properties of the Feature Engine\<close>

text \<open>
  Claim C9. For every order row whose delivered date and estimated delivery date are both
  dates (datetimes, or texts that parse), \<open>delivery_delay_days\<close> is the delivered date
  minus the estimated date in whole days, rounded down; it is 0 when either date is
  missing or does not parse. \<open>is_delayed\<close> is 1 exactly when \<open>delivery_delay_days\<close> > 0
  and 0 otherwise. \<open>delay_category\<close> is on-time for a delay \<le> 0, minor for 1 to 7, major
  for 8 to 30 and severe above 30: a row with a delay of 10 is a major delay, a row with a
  delay of -2 is on time.
\<close>

theorem delivery_delay_feature:
  "((order_delivered_customer_date r = Datetime a \<or>
     (\<exists>s. order_delivered_customer_date r = Text s \<and> parse s = Some a)) \<and>
    (order_estimated_delivery_date r = Datetime b \<or>
     (\<exists>s. order_estimated_delivery_date r = Text s \<and> parse s = Some b)) \<longrightarrow>
      delivery_delay_days (create_delivery_delay_feature parse r)
        = (a - b) div 86400000000000) \<and>
   (order_delivered_customer_date r = NaT \<or>
    (\<exists>s. order_delivered_customer_date r = Text s \<and> parse s = None) \<or>
    order_estimated_delivery_date r = NaT \<or>
    (\<exists>s. order_estimated_delivery_date r = Text s \<and> parse s = None) \<longrightarrow>
      delivery_delay_days (create_delivery_delay_feature parse r) = 0) \<and>
   (delayed_row.is_delayed (create_delivery_delay_feature parse r) = 1 \<longleftrightarrow>
      delivery_delay_days (create_delivery_delay_feature parse r) > 0) \<and>
   (delayed_row.is_delayed (create_delivery_delay_feature parse r) = 0 \<longleftrightarrow>
      delivery_delay_days (create_delivery_delay_feature parse r) \<le> 0) \<and>
   delay_category (create_delivery_delay_feature parse r) =
     (let d = delivery_delay_days (create_delivery_delay_feature parse r)
      in if d \<le> 0 then ''On Time/Early''
         else if 1 \<le> d \<and> d \<le> 7 then ''Minor Delay (1-7 days)''
         else if 8 \<le> d \<and> d \<le> 30 then ''Major Delay (8-30 days)''
         else ''Severe Delay (30+ days)'') \<and>
   (delivery_delay_days (create_delivery_delay_feature parse r) = 10 \<longrightarrow>
      delay_category (create_delivery_delay_feature parse r) = ''Major Delay (8-30 days)'') \<and>
   (delivery_delay_days (create_delivery_delay_feature parse r) = - 2 \<longrightarrow>
      delay_category (create_delivery_delay_feature parse r) = ''On Time/Early'')"
proof -
  let ?r = "create_delivery_delay_feature parse r"
  have days: "delivery_delay_days ?r =
      fillna 0 (timedelta_days (to_datetime parse (order_delivered_customer_date r))
                               (to_datetime parse (order_estimated_delivery_date r)))"
    by (simp add: create_delivery_delay_feature_def Let_def)
  have 1: "delivery_delay_days ?r = (a - b) div 86400000000000"
    if "(order_delivered_customer_date r = Datetime a \<or>
         (\<exists>s. order_delivered_customer_date r = Text s \<and> parse s = Some a)) \<and>
        (order_estimated_delivery_date r = Datetime b \<or>
         (\<exists>s. order_estimated_delivery_date r = Text s \<and> parse s = Some b))"
  proof -
    from that have "to_datetime parse (order_delivered_customer_date r) = Datetime a"
      "to_datetime parse (order_estimated_delivery_date r) = Datetime b"
      by (auto simp: to_datetime_def)
    then show ?thesis
      by (simp add: days timedelta_days_def fillna_def ns_per_day_def)
  qed
  have 2: "delivery_delay_days ?r = 0"
    if "order_delivered_customer_date r = NaT \<or>
        (\<exists>s. order_delivered_customer_date r = Text s \<and> parse s = None) \<or>
        order_estimated_delivery_date r = NaT \<or>
        (\<exists>s. order_estimated_delivery_date r = Text s \<and> parse s = None)"
  proof -
    from that have "to_datetime parse (order_delivered_customer_date r) = NaT \<or>
      to_datetime parse (order_estimated_delivery_date r) = NaT"
      by (auto simp: to_datetime_def)
    then show ?thesis
      by (auto simp: days timedelta_days_def fillna_def split: date_cell.splits)
  qed
  have 3: "delayed_row.is_delayed ?r = 1 \<longleftrightarrow> delivery_delay_days ?r > 0"
    "delayed_row.is_delayed ?r = 0 \<longleftrightarrow> delivery_delay_days ?r \<le> 0"
    by (simp_all add: create_delivery_delay_feature_def Let_def)
  have 4: "delay_category ?r =
     (let d = delivery_delay_days ?r
      in if d \<le> 0 then ''On Time/Early''
         else if 1 \<le> d \<and> d \<le> 7 then ''Minor Delay (1-7 days)''
         else if 8 \<le> d \<and> d \<le> 30 then ''Major Delay (8-30 days)''
         else ''Severe Delay (30+ days)'')"
    by (simp add: create_delivery_delay_feature_def Let_def categorize_delay_def)
  have 5: "delay_category ?r = ''Major Delay (8-30 days)''" if "delivery_delay_days ?r = 10"
    using that 4 by (simp add: Let_def)
  have 6: "delay_category ?r = ''On Time/Early''" if "delivery_delay_days ?r = - 2"
    using that 4 by (simp add: Let_def)
  from 1 2 3 4 5 6 show ?thesis by blast
qed

text \<open>The theorem at an order delivered 10 days and 13 hours after its estimated date, at
  one delivered 42 hours before it, and at one not delivered.\<close>

theorem delivery_delay_feature_witness:
  "delivery_delay_days (create_delivery_delay_feature parse_example row_late) = 10 \<and>
   delayed_row.is_delayed (create_delivery_delay_feature parse_example row_late) = 1 \<and>
   delay_category (create_delivery_delay_feature parse_example row_late)
     = ''Major Delay (8-30 days)'' \<and>
   delivery_delay_days (create_delivery_delay_feature parse_example row_early) = - 2 \<and>
   delayed_row.is_delayed (create_delivery_delay_feature parse_example row_early) = 0 \<and>
   delay_category (create_delivery_delay_feature parse_example row_early)
     = ''On Time/Early'' \<and>
   delivery_delay_days (create_delivery_delay_feature parse_example row_undelivered) = 0"
proof -
  note late = delivery_delay_feature [where r = row_late and parse = parse_example
      and a = 1520773200000000000 and b = 1519862400000000000]
  note early = delivery_delay_feature [where r = row_early and parse = parse_example
      and a = 1519711200000000000 and b = 1519862400000000000]
  note none = delivery_delay_feature [where r = row_undelivered and parse = parse_example]
  have hl: "(order_delivered_customer_date row_late = Datetime 1520773200000000000 \<or>
       (\<exists>s. order_delivered_customer_date row_late = Text s \<and>
            parse_example s = Some 1520773200000000000)) \<and>
      (order_estimated_delivery_date row_late = Datetime 1519862400000000000 \<or>
       (\<exists>s. order_estimated_delivery_date row_late = Text s \<and>
            parse_example s = Some 1519862400000000000))"
    by (simp add: row_late_def parse_example_def)
  have he: "(order_delivered_customer_date row_early = Datetime 1519711200000000000 \<or>
       (\<exists>s. order_delivered_customer_date row_early = Text s \<and>
            parse_example s = Some 1519711200000000000)) \<and>
      (order_estimated_delivery_date row_early = Datetime 1519862400000000000 \<or>
       (\<exists>s. order_estimated_delivery_date row_early = Text s \<and>
            parse_example s = Some 1519862400000000000))"
    by (simp add: row_early_def parse_example_def)
  have hn: "order_delivered_customer_date row_undelivered = NaT"
    by (simp add: row_undelivered_def)
  from late hl
  have l1: "delivery_delay_days (create_delivery_delay_feature parse_example row_late)
              = (1520773200000000000 - 1519862400000000000) div 86400000000000"
    by blast
  then have l2: "delivery_delay_days (create_delivery_delay_feature parse_example row_late) = 10"
    by simp
  from early he
  have e1: "delivery_delay_days (create_delivery_delay_feature parse_example row_early)
              = (1519711200000000000 - 1519862400000000000) div 86400000000000"
    by blast
  then have e2: "delivery_delay_days (create_delivery_delay_feature parse_example row_early) = - 2"
    by simp
  from none hn
  have n1: "delivery_delay_days (create_delivery_delay_feature parse_example row_undelivered) = 0"
    by blast
  from late l2
  have l3: "delayed_row.is_delayed (create_delivery_delay_feature parse_example row_late) = 1"
    "delay_category (create_delivery_delay_feature parse_example row_late)
       = ''Major Delay (8-30 days)''"
    by simp_all
  from early e2
  have e3: "delayed_row.is_delayed (create_delivery_delay_feature parse_example row_early) = 0"
    "delay_category (create_delivery_delay_feature parse_example row_early)
       = ''On Time/Early''"
    by simp_all
  from l2 l3 e2 e3 n1 show ?thesis by blast
qed


section \<open>Properties of the Funnel Metrics Engine\<close>

subsection \<open>Rounding to a double\<close>

declare mantissa_exponent.simps [simp del]

lemma pow2_neg: "pow2 (- int k) = 1 / 2 ^ k"
  by (simp add: pow2_def)

lemma mantissa_exponent_up:
  "2 ^ 52 \<le> x * 2 ^ k \<Longrightarrow> x * 2 ^ k < 2 ^ 53 \<Longrightarrow> e - int k \<ge> - 1074 \<Longrightarrow>
     mantissa_exponent x e = (x * 2 ^ k, e - int k)"
proof (induction k arbitrary: x e)
  case 0
  then show ?case by (simp add: mantissa_exponent.simps [of x e])
next
  case (Suc k)
  have "x * 2 * 2 ^ k < 2 ^ 53" using Suc.prems by (simp add: mult.assoc)
  moreover have "(1::rat) \<le> 2 ^ k" by simp
  moreover have "0 < x"
  proof -
    have "(0::rat) < 2 ^ 52" by simp
    from this Suc.prems(1) have "0 < x * 2 ^ Suc k" by (rule less_le_trans)
    then show ?thesis by (simp add: zero_less_mult_iff)
  qed
  ultimately have "x * 2 * 1 < 2 ^ 53"
    by (meson le_less_trans mult_left_mono mult_nonneg_nonneg less_imp_le zero_le_numeral)
  then have lt: "x < 2 ^ 52" by simp
  from Suc.prems have "mantissa_exponent (x * 2) (e - 1) = (x * 2 * 2 ^ k, e - 1 - int k)"
    by (intro Suc.IH) (simp_all add: mult.assoc)
  with lt Suc.prems show ?case
    by (subst mantissa_exponent.simps) (simp add: mult.assoc)
qed

text \<open>A positive number below \<open>2 ^ 53\<close> is rounded at the scale \<open>k\<close> that brings it
  between \<open>2 ^ 52\<close> and \<open>2 ^ 53\<close>.\<close>

lemma fl_pos_up:
  assumes "2 ^ 52 \<le> x * 2 ^ k" "x * 2 ^ k < 2 ^ 53" "k \<le> 1074"
  shows "fl_pos x = of_int (round_half_even (x * 2 ^ k)) / 2 ^ k"
proof -
  have "mantissa_exponent x 0 = (x * 2 ^ k, 0 - int k)"
    using assms by (intro mantissa_exponent_up) simp_all
  then show ?thesis
    by (simp add: fl_pos_def pow2_neg)
qed




lemma fl_third: "fl (1 / 3) = 6004799503160661 / 18014398509481984"
proof -
  have "fl_pos (1 / 3) = of_int (round_half_even (1 / 3 * 2 ^ 54)) / 2 ^ 54"
    by (rule fl_pos_up) simp_all
  moreover have "round_half_even (1 / 3 * 2 ^ 54) = 6004799503160661"
    by code_simp
  ultimately show ?thesis by (simp add: fl_def)
qed

lemma fl_third_100: "fl (150119987579016525 / 4503599627370496) = 2345624805922133 / 70368744177664"
proof -
  have "fl_pos (150119987579016525 / 4503599627370496) = of_int (round_half_even (150119987579016525 / 4503599627370496 * 2 ^ 47)) / 2 ^ 47"
    by (rule fl_pos_up) simp_all
  moreover have "round_half_even (150119987579016525 / 4503599627370496 * 2 ^ 47) = 4691249611844266"
    by code_simp
  ultimately show ?thesis by (simp add: fl_def)
qed





lemma percentage_third: "spec_percentage 1 3 = 2345624805922133 / 70368744177664"
  by (simp add: spec_percentage_def fmul_def fl_third fl_third_100)




lemma round2_0: "round2 0 = 0"
  by (simp add: round2_def round_half_even_def)


lemma round2_third: "round2 (2345624805922133 / 70368744177664) = 3333 / 100"
  by code_simp


subsection \<open>The guarded rates never raise\<close>

lemma no_overflow:
  assumes "0 \<le> a" "a \<le> b" "0 < b"
  shows "\<not> 2 ^ 1024 - 2 ^ 970 \<le> \<bar>of_int a / of_int b :: rat\<bar>"
proof -
  have "(of_int a :: rat) \<le> of_int b" using assms by simp
  then have "(of_int a / of_int b :: rat) \<le> 1"
    using assms by (simp add: divide_le_eq)
  moreover have "(0 :: rat) \<le> of_int a / of_int b" using assms by simp
  ultimately have "\<bar>of_int a / of_int b :: rat\<bar> \<le> 1" by simp
  moreover have "(1 :: rat) < 2 ^ 1024 - 2 ^ 970" by simp
  ultimately show ?thesis by linarith
qed

lemma guarded_percent:
  assumes "0 \<le> a" "a \<le> b"
  shows "(if b > 0 then percent_of a b else Inr 0) = Inr (spec_percentage a b)"
proof (cases "b > 0")
  case True
  with no_overflow [OF assms] show ?thesis
    by (simp add: percent_of_def true_div_def and_then_def spec_percentage_def)
next
  case False
  with assms have "b = 0" by simp
  then show ?thesis by (simp add: spec_percentage_def)
qed

lemma and_then_Inr: "and_then (Inr v) f = f v"
  by (simp add: and_then_def)

lemma len_where_bounds: "0 \<le> len_where P xs" "len_where P xs \<le> int (length xs)"
  by (simp_all add: len_where_def)

lemma len_where_mono:
  "(\<And>x. P x \<Longrightarrow> Q x) \<Longrightarrow> len_where P xs \<le> len_where Q xs"
  unfolding len_where_def by (induction xs) auto

lemma core_funnel_value:
  "calculate_core_funnel_metrics cs =
     Inr \<lparr> acquisition_customers = int (length cs),
           activation_customers = len_where (\<lambda>c. total_orders c \<ge> 1) cs,
           retention_customers = len_where (\<lambda>c. total_orders c \<ge> 2) cs,
           activation_rate_percent =
             round2 (spec_percentage (len_where (\<lambda>c. total_orders c \<ge> 1) cs)
                       (int (length cs))),
           retention_rate_percent =
             round2 (spec_percentage (len_where (\<lambda>c. total_orders c \<ge> 2) cs)
                       (len_where (\<lambda>c. total_orders c \<ge> 1) cs)),
           acquisition_to_activation_dropoff =
             int (length cs) - len_where (\<lambda>c. total_orders c \<ge> 1) cs,
           activation_to_retention_dropoff =
             len_where (\<lambda>c. total_orders c \<ge> 1) cs - len_where (\<lambda>c. total_orders c \<ge> 2) cs,
           activation_dropoff_rate_percent =
             round2 (spec_percentage
                       (int (length cs) - len_where (\<lambda>c. total_orders c \<ge> 1) cs)
                       (int (length cs))),
           retention_dropoff_rate_percent =
             round2 (spec_percentage
                       (len_where (\<lambda>c. total_orders c \<ge> 1) cs
                        - len_where (\<lambda>c. total_orders c \<ge> 2) cs)
                       (len_where (\<lambda>c. total_orders c \<ge> 1) cs)) \<rparr>"
proof -
  let ?n = "int (length cs)"
  let ?a = "len_where (\<lambda>c. total_orders c \<ge> 1) cs"
  let ?r = "len_where (\<lambda>c. total_orders c \<ge> 2) cs"
  have a: "0 \<le> ?a" "?a \<le> ?n" by (rule len_where_bounds)+
  have r: "0 \<le> ?r" by (rule len_where_bounds)
  have ra: "?r \<le> ?a" by (rule len_where_mono) simp
  have 1: "(if ?n > 0 then percent_of ?a ?n else Inr 0) = Inr (spec_percentage ?a ?n)"
    using a by (rule guarded_percent)
  have 2: "(if ?a > 0 then percent_of ?r ?a else Inr 0) = Inr (spec_percentage ?r ?a)"
    using r ra by (rule guarded_percent)
  have 3: "(if ?n > 0 then percent_of (?n - ?a) ?n else Inr 0)
             = Inr (spec_percentage (?n - ?a) ?n)"
    using a by (intro guarded_percent) simp_all
  have 4: "(if ?a > 0 then percent_of (?a - ?r) ?a else Inr 0)
             = Inr (spec_percentage (?a - ?r) ?a)"
    using r ra by (intro guarded_percent) simp_all
  show ?thesis
    unfolding calculate_core_funnel_metrics_def Let_def 1 2 3 4 and_then_Inr
    by (rule refl)
qed

lemma retention_impact_value:
  "calculate_retention_impact cs col =
     Inr \<lparr> retention_without_negative_percent =
             round2 (spec_retention_rate (filter (\<lambda>c. col c = Some 0) cs)),
           retention_with_negative_percent =
             round2 (spec_retention_rate (filter (\<lambda>c. col c = Some 1) cs)),
           retention_impact_percent =
             round2 (fsub (spec_retention_rate (filter (\<lambda>c. col c = Some 0) cs))
                          (spec_retention_rate (filter (\<lambda>c. col c = Some 1) cs))) \<rparr>"
proof -
  have g: "(if int (length grp) > 0
            then percent_of (len_where (\<lambda>c. total_orders c \<ge> 2) grp) (int (length grp))
            else Inr 0) = Inr (spec_retention_rate grp)" for grp :: "customer list"
    using guarded_percent [OF len_where_bounds(1) [of "\<lambda>c. total_orders c \<ge> 2" grp]
        len_where_bounds(2) [of "\<lambda>c. total_orders c \<ge> 2" grp]]
    by (simp add: spec_retention_rate_def len_where_def)
  show ?thesis
    unfolding calculate_retention_impact_def Let_def g and_then_Inr
    by (rule refl)
qed


text \<open>
  Claim C6. Neither \<open>calculate_core_funnel_metrics\<close> nor \<open>calculate_retention_impact\<close>
  raises a division error on any input. The activation rate (and its drop-off rate) is 0
  when there is no customer, the retention rate (and its drop-off rate) is 0 when no
  customer is activated, and each component rate of a retention impact is 0 when its group
  of customers is empty.
\<close>

theorem zero_denominator_rates:
  "(\<exists>m. calculate_core_funnel_metrics cs = Inr m \<and>
        (acquisition_customers m = 0 \<longrightarrow>
           activation_rate_percent m = 0 \<and> activation_dropoff_rate_percent m = 0) \<and>
        (activation_customers m = 0 \<longrightarrow>
           retention_rate_percent m = 0 \<and> retention_dropoff_rate_percent m = 0)) \<and>
   (\<exists>i. calculate_retention_impact cs col = Inr i \<and>
        (filter (\<lambda>c. col c = Some 0) cs = [] \<longrightarrow> retention_without_negative_percent i = 0) \<and>
        (filter (\<lambda>c. col c = Some 1) cs = [] \<longrightarrow> retention_with_negative_percent i = 0))"
proof (rule conjI)
  show "\<exists>m. calculate_core_funnel_metrics cs = Inr m \<and>
        (acquisition_customers m = 0 \<longrightarrow>
           activation_rate_percent m = 0 \<and> activation_dropoff_rate_percent m = 0) \<and>
        (activation_customers m = 0 \<longrightarrow>
           retention_rate_percent m = 0 \<and> retention_dropoff_rate_percent m = 0)"
    unfolding core_funnel_value by (simp add: round2_0 spec_percentage_def)
  show "\<exists>i. calculate_retention_impact cs col = Inr i \<and>
        (filter (\<lambda>c. col c = Some 0) cs = [] \<longrightarrow> retention_without_negative_percent i = 0) \<and>
        (filter (\<lambda>c. col c = Some 1) cs = [] \<longrightarrow> retention_with_negative_percent i = 0)"
    unfolding retention_impact_value
    by (simp add: round2_0 spec_retention_rate_def spec_percentage_def)
qed

text \<open>The theorem at the empty customer summary, where every denominator is zero, and
  at one customer with no counted order, where only the activation count is.\<close>

theorem zero_denominator_rates_witness:
  "map_sum id (\<lambda>m. (acquisition_customers m, activation_rate_percent m,
                     activation_dropoff_rate_percent m))
     (calculate_core_funnel_metrics []) = Inr (0, 0, 0) \<and>
   map_sum id (\<lambda>m. (acquisition_customers m, activation_customers m,
                     retention_rate_percent m, retention_dropoff_rate_percent m))
     (calculate_core_funnel_metrics [customer_no_orders]) = Inr (1, 0, 0, 0) \<and>
   map_sum id (\<lambda>i. (retention_without_negative_percent i, retention_with_negative_percent i))
     (calculate_retention_impact [] experienced_delay) = Inr (0, 0)"
proof -
  from zero_denominator_rates [of "[]" experienced_delay]
  obtain m i where m: "calculate_core_funnel_metrics [] = Inr m"
    and m0: "acquisition_customers m = 0 \<longrightarrow>
               activation_rate_percent m = 0 \<and> activation_dropoff_rate_percent m = 0"
    and i: "calculate_retention_impact [] experienced_delay = Inr i"
    and i0: "retention_without_negative_percent i = 0" "retention_with_negative_percent i = 0"
    by auto
  from m have a: "acquisition_customers m = 0"
    by (auto simp: core_funnel_value)
  from zero_denominator_rates [of "[customer_no_orders]" experienced_delay]
  obtain n where n: "calculate_core_funnel_metrics [customer_no_orders] = Inr n"
    and n0: "activation_customers n = 0 \<longrightarrow>
               retention_rate_percent n = 0 \<and> retention_dropoff_rate_percent n = 0"
    by auto
  from n have b: "acquisition_customers n = 1" "activation_customers n = 0"
    by (auto simp: core_funnel_value len_where_def customer_no_orders_def)
  from m m0 a i i0 n n0 b show ?thesis
    by simp
qed

subsection \<open>The core funnel\<close>

lemma len_where_mset:
  "len_where (\<lambda>c. P (f c)) cs = int (size (filter_mset P (mset (map f cs))))"
  unfolding len_where_def by (induction cs) simp_all

text \<open>
  Claim C4. For a customer summary of exactly three customers with the order counts
  1, 1 and 3, in any row order, \<open>calculate_core_funnel_metrics\<close> returns
  \<open>acquisition_customers\<close> = 3, \<open>activation_customers\<close> = 3,
  \<open>retention_customers\<close> = 1 and \<open>retention_rate_percent\<close> = 33.33.
\<close>

theorem core_metrics_1_1_3:
  assumes "mset (map total_orders cs) = {#1, 1, 3#}"
  shows "\<exists>m. calculate_core_funnel_metrics cs = Inr m \<and>
             acquisition_customers m = 3 \<and> activation_customers m = 3 \<and>
             retention_customers m = 1 \<and> retention_rate_percent m = 3333 / 100"
proof -
  have "size (mset (map total_orders cs)) = size {#1, 1, 3::int#}"
    by (simp only: assms)
  then have n: "int (length cs) = 3"
    by simp
  have a: "len_where (\<lambda>c. total_orders c \<ge> 1) cs = 3"
    using len_where_mset [of "\<lambda>n. n \<ge> 1" total_orders cs] assms by simp
  have r: "len_where (\<lambda>c. total_orders c \<ge> 2) cs = 1"
    using len_where_mset [of "\<lambda>n. n \<ge> 2" total_orders cs] assms by simp
  have q: "round2 (spec_percentage 1 3) = 3333 / 100"
    by (simp only: percentage_third round2_third)
  show ?thesis
    unfolding core_funnel_value using n a r q by simp
qed

text \<open>The theorem at three customers with 1, 3 and 1 orders.\<close>

theorem core_metrics_1_1_3_witness:
  "mset (map total_orders [customer_B, customer_D, customer_C]) = {#1, 1, 3#} \<and>
   map_sum id (\<lambda>m. (acquisition_customers m, activation_customers m, retention_customers m,
                     retention_rate_percent m))
     (calculate_core_funnel_metrics [customer_B, customer_D, customer_C])
     = Inr (3, 3, 1, 3333 / 100)"
proof -
  have h: "mset (map total_orders [customer_B, customer_D, customer_C]) = {#1, 1, 3#}"
    by (simp add: customer_B_def customer_C_def customer_D_def)
  from core_metrics_1_1_3 [OF h] h show ?thesis
    by auto
qed

subsection \<open>Activation and acquisition\<close>

lemma present_all:
  "\<forall>c \<in> set cells. c \<noteq> None \<Longrightarrow> length (present cells) = length cells"
  unfolding present_def by (induction cells) auto

lemma group_nonempty:
  assumes "k \<in> set (group_keys df)"
  shows "group_rows df k \<noteq> []"
proof -
  from assms obtain r where "r \<in> set df" "order.customer_unique_id r = Some k"
    by (auto simp: group_keys_def List.map_filter_def)
  then show ?thesis
    by (auto simp: group_rows_def filter_empty_conv)
qed

lemma summary_total_orders:
  assumes "\<forall>r \<in> set df. order_id r \<noteq> None"
    and "c \<in> set (calculate_customer_level_metrics df)"
  shows "total_orders c \<ge> 1"
proof -
  from assms(2) obtain k where k: "k \<in> set (group_keys df)"
    and c: "c = summarize k (group_rows df k)"
    by (auto simp: calculate_customer_level_metrics_def)
  have "\<forall>x \<in> set (map order_id (group_rows df k)). x \<noteq> None"
    using assms(1) by (auto simp: group_rows_def)
  then have "length (present (map order_id (group_rows df k))) = length (group_rows df k)"
    using present_all [of "map order_id (group_rows df k)"] by simp
  moreover have "length (group_rows df k) \<ge> 1"
    using group_nonempty [OF k] by (cases "group_rows df k") simp_all
  ultimately show ?thesis
    by (simp add: c summarize_def agg_count_def Let_def)
qed

text \<open>
  Claim C5, as the code has it. For every engineered-orders input whose rows all carry an
  \<open>order_id\<close>, the activation count equals the acquisition count, the number of distinct
  customer ids: \<open>total_orders\<close> counts the order ids of a customer that are present, so
  every customer of the summary has at least one.
\<close>

theorem activation_eq_acquisition:
  assumes "\<forall>r \<in> set df. order_id r \<noteq> None"
  shows "\<exists>m. calculate_core_funnel_metrics (calculate_customer_level_metrics df) = Inr m \<and>
             activation_customers m = acquisition_customers m \<and>
             acquisition_customers m = int (length (group_keys df))"
proof -
  have "filter (\<lambda>c. total_orders c \<ge> 1) (calculate_customer_level_metrics df)
          = calculate_customer_level_metrics df"
    using summary_total_orders [OF assms] by (simp add: filter_id_conv)
  then have "len_where (\<lambda>c. total_orders c \<ge> 1) (calculate_customer_level_metrics df)
          = int (length (calculate_customer_level_metrics df))"
    by (simp add: len_where_def)
  moreover have "length (calculate_customer_level_metrics df) = length (group_keys df)"
    by (simp add: calculate_customer_level_metrics_def)
  ultimately show ?thesis
    unfolding core_funnel_value by simp
qed

text \<open>The theorem at one order with its id: one customer acquired, one activated.\<close>

theorem activation_eq_acquisition_witness:
  "map_sum id (\<lambda>m. (acquisition_customers m, activation_customers m))
     (calculate_core_funnel_metrics (calculate_customer_level_metrics [order_with_id]))
   = Inr (1, 1)"
proof -
  have h: "\<forall>r \<in> set [order_with_id]. order_id r \<noteq> None"
    by (simp add: order_with_id_def)
  have "group_keys [order_with_id] = [''c1'']"
    by (simp add: group_keys_def order_with_id_def)
  with activation_eq_acquisition [OF h] show ?thesis
    by auto
qed

text \<open>Claim C5 as stated fails: the aggregation \<open>count\<close> skips a missing \<open>order_id\<close>,
  so a customer whose only order row has none is acquired with \<open>total_orders\<close> = 0 and
  is not activated.\<close>

theorem activation_counterexample:
  "map_sum id (\<lambda>m. (acquisition_customers m, activation_customers m))
     (calculate_core_funnel_metrics (calculate_customer_level_metrics [order_without_id]))
   = Inr (1, 0)"
  unfolding core_funnel_value
  by (simp add: calculate_customer_level_metrics_def group_keys_def group_rows_def
        summarize_def agg_count_def present_def order_without_id_def len_where_def)

subsection \<open>Retention impact\<close>





subsection \<open>The biggest retention killer\<close>

text \<open>
  Claim C8. The pick of the report is the first of delay, cancellation and negative
  review whose retention impact is the largest of the three: it is \<open>Delivery delays\<close>
  exactly when the delay impact is at least the other two, \<open>Cancellations\<close> exactly when
  the cancellation impact is above the delay impact and at least the review impact, and
  \<open>Negative reviews\<close> exactly when the review impact is above both others.
\<close>

theorem biggest_retention_killer_argmax:
  "(biggest_retention_killer dm = ''Delivery delays'' \<longleftrightarrow>
      retention_impact_percent (delay_retention_impact dm)
        \<ge> retention_impact_percent (cancellation_retention_impact dm) \<and>
      retention_impact_percent (delay_retention_impact dm)
        \<ge> retention_impact_percent (review_retention_impact dm)) \<and>
   (biggest_retention_killer dm = ''Cancellations'' \<longleftrightarrow>
      retention_impact_percent (cancellation_retention_impact dm)
        > retention_impact_percent (delay_retention_impact dm) \<and>
      retention_impact_percent (cancellation_retention_impact dm)
        \<ge> retention_impact_percent (review_retention_impact dm)) \<and>
   (biggest_retention_killer dm = ''Negative reviews'' \<longleftrightarrow>
      retention_impact_percent (review_retention_impact dm)
        > retention_impact_percent (delay_retention_impact dm) \<and>
      retention_impact_percent (review_retention_impact dm)
        > retention_impact_percent (cancellation_retention_impact dm))"
  by (auto simp: biggest_retention_killer_def max3_def Let_def)


end
